theory Spec2Isabelle
  imports Complex_Main "HOL-Library.Word" "HOL-Library.AList"
begin

section \<open>Data model of the instance type provider\<close>

text \<open>
  The development embeds \<^verbatim>\<open>pkg/cloudprovider/instancetypes.go\<close>: the offering composer
  \<^verbatim>\<open>createOfferings\<close>, the two fetch-and-cache functions \<^verbatim>\<open>getInstanceTypes\<close> and
  \<^verbatim>\<open>getInstanceTypeZones\<close>, and the orchestrator \<^verbatim>\<open>List\<close>.

  Conventions of the embedding.
  \<^item> A Go \<^verbatim>\<open>*string\<close> of the EC2 SDK is a \<open>string option\<close>; \<^verbatim>\<open>aws.StringValue\<close> reads
    \<^verbatim>\<open>nil\<close> as the empty string, a plain dereference of \<^verbatim>\<open>nil\<close> panics.
  \<^item> A panic and an error return are both values of \<open>err\<close>, on the left of a sum.
  \<^item> \<^verbatim>\<open>sets.String\<close> is a duplicate-free list, read in the order of one iteration. Go leaves
    the iteration order of a map open; the theorems below speak about membership,
    distinctness and images only, never about positions.
  \<^item> \<^verbatim>\<open>uint64\<close> is \<open>64 word\<close>, a \<^verbatim>\<open>float64\<close> price is a \<open>real\<close> that is only copied, never
    computed with.
  \<^item> One call reads the clock as the single instant \<open>Now\<close>, in nanoseconds.
  \<^item> Logging and the change monitor \<^verbatim>\<open>p.cm\<close>, whose answer only guards a debug log line,
    are left out.
\<close>

type_synonym uint64 = "64 word"

datatype err =
    Upstream string
  | Errorf string err
  | NoSubnetsMatched "string \<rightharpoonup> string"
  | Panic string

text \<open>\<^verbatim>\<open>ec2.InstanceTypeInfo\<close>, the fields the provider reads.\<close>

record InstanceTypeInfo =
  InstanceType :: "string option"
  SupportedUsageClasses :: "string option list"

text \<open>\<^verbatim>\<open>cloudprovider.Offering\<close>.\<close>

record Offering =
  Zone :: string
  CapacityType :: string
  Price :: real
  Available :: bool

definition UsageClassTypeSpot :: string where
  "UsageClassTypeSpot = ''spot''"

definition UsageClassTypeOnDemand :: string where
  "UsageClassTypeOnDemand = ''on-demand''"

definition StringValue :: "string option \<Rightarrow> string" where
  "StringValue v = (case v of None \<Rightarrow> [] | Some s \<Rightarrow> s)"

definition StringValueSlice :: "string option list \<Rightarrow> string list" where
  "StringValueSlice vs = map StringValue vs"

subsection \<open>String sets\<close>

definition Insert :: "string list \<Rightarrow> string \<Rightarrow> string list" where
  "Insert s item = (if item \<in> set s then s else s @ [item])"

definition NewString :: "string list \<Rightarrow> string list" where
  "NewString items = foldl Insert [] items"

definition Has :: "string list \<Rightarrow> string \<Rightarrow> bool" where
  "Has s item = (item \<in> set s)"

subsection \<open>Collaborators\<close>

text \<open>
  The unavailability tracker (\<^verbatim>\<open>IsUnavailable\<close>, \<^verbatim>\<open>SeqNum\<close>) and the pricing provider
  (\<^verbatim>\<open>SpotPrice\<close>, \<^verbatim>\<open>OnDemandPrice\<close>, each returning a price and a found flag) live in other
  files of the repository and are parameters here, as are the EC2 client, the subnet
  provider, the clock and \<^verbatim>\<open>hashstructure.Hash\<close>. A paginated EC2 call is the list of
  pages it delivers to the callback and the error it returns afterwards, if any. The
  kubelet configuration is an opaque value behind a pointer that may be nil.
\<close>

record Subnet =
  AvailabilityZone :: "string option"

record InstanceTypeOffering =
  OfferingInstanceType :: "string option"
  Location :: "string option"

record AWSNodeTemplate =
  UID :: string
  SubnetSelector :: "string \<rightharpoonup> string"

type_synonym Filter = "string \<times> string list"

typedecl KubeletConfiguration

record 'cap Env =
  Now :: int
  DescribeInstanceTypesPages :: "Filter list \<Rightarrow> InstanceTypeInfo list list \<times> err option"
  DescribeInstanceTypeOfferingsPages :: "string \<Rightarrow> InstanceTypeOffering list list \<times> err option"
  SubnetList :: "AWSNodeTemplate \<Rightarrow> err + Subnet list"
  IsUnavailable :: "string \<Rightarrow> string \<Rightarrow> string \<Rightarrow> bool"
  UnavailableSeqNum :: uint64
  SpotPrice :: "string \<Rightarrow> string \<Rightarrow> real \<times> bool"
  OnDemandPrice :: "string \<Rightarrow> real \<times> bool"
  HashSelector :: "(string \<rightharpoonup> string) \<Rightarrow> err + uint64"
  HashZones :: "(string \<rightharpoonup> string list) \<Rightarrow> uint64"
  HashKubelet :: "KubeletConfiguration option \<Rightarrow> uint64"
  Capabilities :: "InstanceTypeInfo \<Rightarrow> KubeletConfiguration option \<Rightarrow> string \<Rightarrow> AWSNodeTemplate \<Rightarrow> 'cap"

text \<open>
  Modelled from the spec: the pricing provider behind \<^verbatim>\<open>SpotPrice\<close> and \<^verbatim>\<open>OnDemandPrice\<close>
  is defined in another file of the package. The spec describes it as tables of the
  current spot price, keyed by instance type and zone, and of the on-demand price, keyed
  by instance type, with point lookups that return a price and a found flag, and speaks
  of a defined "no price" sentinel for a lookup that has no data. The value of the
  sentinel is not given and is a field of the provider.
\<close>

record PricingProvider =
  spotPrices :: "string \<times> string \<rightharpoonup> real"
  onDemandPrices :: "string \<rightharpoonup> real"
  noPrice :: real

definition PricingProvider_SpotPrice :: "PricingProvider \<Rightarrow> string \<Rightarrow> string \<Rightarrow> real \<times> bool" where
  "PricingProvider_SpotPrice pricing instanceType zone =
     (case spotPrices pricing (instanceType, zone) of
        None \<Rightarrow> (noPrice pricing, False)
      | Some price \<Rightarrow> (price, True))"

definition PricingProvider_OnDemandPrice :: "PricingProvider \<Rightarrow> string \<Rightarrow> real \<times> bool" where
  "PricingProvider_OnDemandPrice pricing instanceType =
     (case onDemandPrices pricing instanceType of
        None \<Rightarrow> (noPrice pricing, False)
      | Some price \<Rightarrow> (price, True))"

section \<open>The offering composer\<close>

text \<open>
  The inner loop of \<^verbatim>\<open>createOfferings\<close> over the capacity types of one zone. The name is
  dereferenced first (\<^verbatim>\<open>*instanceType.InstanceType\<close>), then the \<^verbatim>\<open>switch\<close> picks the price
  lookup; the \<^verbatim>\<open>default\<close> branch continues without appending.
\<close>

fun createOfferings_zone ::
  "'cap Env \<Rightarrow> InstanceTypeInfo \<Rightarrow> string \<Rightarrow> string list \<Rightarrow> Offering list
    \<Rightarrow> err + Offering list" where
  "createOfferings_zone env instanceType zone [] offerings = Inr offerings"
| "createOfferings_zone env instanceType zone (capacityType # rest) offerings =
     (case InstanceType instanceType of
        None \<Rightarrow> Inl (Panic ''nil pointer dereference'')
      | Some name \<Rightarrow>
          (let isUnavailable = IsUnavailable env name zone capacityType in
           if capacityType = UsageClassTypeSpot then
             (let (price, ok) = SpotPrice env name zone in
              createOfferings_zone env instanceType zone rest
                (offerings @ [\<lparr>Zone = zone, CapacityType = capacityType, Price = price,
                               Available = (\<not> isUnavailable \<and> ok)\<rparr>]))
           else if capacityType = UsageClassTypeOnDemand then
             (let (price, ok) = OnDemandPrice env name in
              createOfferings_zone env instanceType zone rest
                (offerings @ [\<lparr>Zone = zone, CapacityType = capacityType, Price = price,
                               Available = (\<not> isUnavailable \<and> ok)\<rparr>]))
           else createOfferings_zone env instanceType zone rest offerings))"

text \<open>The outer loop over the zones; the set of usage classes is rebuilt for every zone.\<close>

fun createOfferings_zones ::
  "'cap Env \<Rightarrow> InstanceTypeInfo \<Rightarrow> string list \<Rightarrow> Offering list
    \<Rightarrow> err + Offering list" where
  "createOfferings_zones env instanceType [] offerings = Inr offerings"
| "createOfferings_zones env instanceType (zone # rest) offerings =
     (case createOfferings_zone env instanceType zone
             (NewString (StringValueSlice (SupportedUsageClasses instanceType))) offerings of
        Inl e \<Rightarrow> Inl e
      | Inr offerings' \<Rightarrow> createOfferings_zones env instanceType rest offerings')"

definition createOfferings ::
  "'cap Env \<Rightarrow> InstanceTypeInfo \<Rightarrow> string list \<Rightarrow> err + Offering list" where
  "createOfferings env instanceType zones = createOfferings_zones env instanceType zones []"

section \<open>The provider and its cache\<close>

text \<open>
  Modelled from the spec: \<^verbatim>\<open>NewInstanceType\<close> and the type it builds are defined in
  another file of the package and in the core library. The spec describes the result as
  \<^verbatim>\<open>{name, capability attributes, list of Offering}\<close>; the attributes are computed from the
  record, the kubelet configuration, the region and the node template by the parameter
  \<open>Capabilities\<close>, and the offerings are stored as they are handed in.
\<close>

record 'cap ResolvedInstanceType =
  Name :: string
  Attributes :: 'cap
  Offerings :: "Offering list"

definition NewInstanceType ::
  "'cap Env \<Rightarrow> InstanceTypeInfo \<Rightarrow> KubeletConfiguration option \<Rightarrow> string \<Rightarrow> AWSNodeTemplate
    \<Rightarrow> Offering list
    \<Rightarrow> 'cap ResolvedInstanceType" where
  "NewInstanceType env info kc region nodeTemplate offerings =
     \<lparr>Name = StringValue (InstanceType info),
      Attributes = Capabilities env info kc region nodeTemplate,
      Offerings = offerings\<rparr>"

text \<open>
  One \<^verbatim>\<open>go-cache\<close> instance holds three kinds of value under string keys: the catalog
  (a Go map that \<^verbatim>\<open>List\<close> iterates, hence an association list), a zone map and a resolved
  list. An item carries its expiration in nanoseconds; \<^verbatim>\<open>Get\<close> misses on an absent key and
  on an item whose positive expiration lies before the current time, and \<^verbatim>\<open>SetDefault\<close>
  stamps the item with the current time plus the default expiration.
\<close>

datatype 'cap CacheValue =
    CTypes "(string \<times> InstanceTypeInfo) list"
  | CZones "string \<rightharpoonup> string list"
  | CResult "'cap ResolvedInstanceType list"

type_synonym 'cap Cache = "string \<rightharpoonup> ('cap CacheValue \<times> int)"

definition InstanceTypesCacheKey :: string where
  "InstanceTypesCacheKey = ''types''"

definition InstanceTypeZonesCacheKeyPrefix :: string where
  "InstanceTypeZonesCacheKeyPrefix = ''zones:''"

definition InstanceTypesAndZonesCacheTTL :: int where
  "InstanceTypesAndZonesCacheTTL = 5 * 60 * 1000000000"

definition Get :: "'cap Cache \<Rightarrow> int \<Rightarrow> string \<Rightarrow> 'cap CacheValue option" where
  "Get c now k =
     (case c k of
        None \<Rightarrow> None
      | Some (x, expiration) \<Rightarrow>
          if expiration > 0 \<and> now > expiration then None else Some x)"

definition SetDefault :: "'cap Cache \<Rightarrow> int \<Rightarrow> string \<Rightarrow> 'cap CacheValue \<Rightarrow> 'cap Cache" where
  "SetDefault c now k x = c(k \<mapsto> (x, now + InstanceTypesAndZonesCacheTTL))"

record 'cap InstanceTypeProvider =
  region :: string
  cache :: "'cap Cache"
  instanceTypesSeqNum :: uint64

definition NewInstanceTypeProvider :: "string \<Rightarrow> 'cap InstanceTypeProvider" where
  "NewInstanceTypeProvider sessRegion =
     \<lparr>region = sessRegion, cache = Map.empty, instanceTypesSeqNum = 0\<rparr>"

subsection \<open>Cache keys\<close>

text \<open>The verbs \<^verbatim>\<open>%d\<close> and \<^verbatim>\<open>%016x\<close> of \<^verbatim>\<open>fmt.Sprintf\<close> on a \<^verbatim>\<open>uint64\<close>.\<close>

definition digit :: "nat \<Rightarrow> char" where
  "digit n = ''0123456789abcdef'' ! (n mod 16)"

function fmt_d :: "nat \<Rightarrow> string" where
  "fmt_d n = (if n < 10 then [digit n] else fmt_d (n div 10) @ [digit (n mod 10)])"
  by pat_completeness auto
termination
  by (relation "measure (\<lambda>n. n)") auto

declare fmt_d.simps [simp del]

definition fmt_016x :: "uint64 \<Rightarrow> string" where
  "fmt_016x h = map (\<lambda>i. digit ((unat h div 16 ^ i) mod 16)) (rev [0..<16])"

definition zonesKey :: "uint64 \<Rightarrow> string" where
  "zonesKey subnetSelectorHash = InstanceTypeZonesCacheKeyPrefix @ fmt_016x subnetSelectorHash"

definition resultKey :: "uint64 \<Rightarrow> uint64 \<Rightarrow> string \<Rightarrow> uint64 \<Rightarrow> uint64 \<Rightarrow> string" where
  "resultKey seqNum unavailableSeqNum uid instanceTypeZonesHash kcHash =
     fmt_d (unat seqNum) @ ''-'' @ fmt_d (unat unavailableSeqNum) @ ''-'' @ uid @ ''-''
       @ fmt_016x instanceTypeZonesHash @ ''-'' @ fmt_016x kcHash"

subsection \<open>The catalog\<close>

definition instanceTypeFilters :: "Filter list" where
  "instanceTypeFilters =
     [(''supported-virtualization-type'', [''hvm'']),
      (''processor-info.supported-architecture'', [''x86_64'', ''arm64''])]"

text \<open>The page callback of \<^verbatim>\<open>getInstanceTypes\<close>: every record is stored under its name.\<close>

fun typesPage ::
  "(string \<times> InstanceTypeInfo) list \<Rightarrow> InstanceTypeInfo list \<Rightarrow> (string \<times> InstanceTypeInfo) list" where
  "typesPage instanceTypes [] = instanceTypes"
| "typesPage instanceTypes (instanceType # rest) =
     typesPage (AList.update (StringValue (InstanceType instanceType)) instanceType instanceTypes) rest"

definition getInstanceTypes ::
  "'cap Env \<Rightarrow> 'cap InstanceTypeProvider
    \<Rightarrow> (err + (string \<times> InstanceTypeInfo) list) \<times> 'cap InstanceTypeProvider" where
  "getInstanceTypes env p =
     (case Get (cache p) (Now env) InstanceTypesCacheKey of
        Some (CTypes cached) \<Rightarrow> (Inr cached, p)
      | Some _ \<Rightarrow> (Inl (Panic ''interface conversion''), p)
      | None \<Rightarrow>
          (case DescribeInstanceTypesPages env instanceTypeFilters of
             (pages, Some e) \<Rightarrow>
               (Inl (Errorf ''fetching instance types using ec2.DescribeInstanceTypes, '' e), p)
           | (pages, None) \<Rightarrow>
               (let instanceTypes = foldl typesPage [] pages in
                (Inr instanceTypes,
                 p\<lparr>instanceTypesSeqNum := instanceTypesSeqNum p + 1,
                   cache := SetDefault (cache p) (Now env) InstanceTypesCacheKey
                              (CTypes instanceTypes)\<rparr>))))"

subsection \<open>The zone map\<close>

text \<open>
  The page callback of \<^verbatim>\<open>getInstanceTypeZones\<close>: an offering located in one of the subnet
  zones adds its location to the set of its instance type, which is created empty first
  when the type has no entry yet.
\<close>

fun zonesPage ::
  "string list \<Rightarrow> (string \<rightharpoonup> string list) \<Rightarrow> InstanceTypeOffering list \<Rightarrow> (string \<rightharpoonup> string list)" where
  "zonesPage zones instanceTypeZones [] = instanceTypeZones"
| "zonesPage zones instanceTypeZones (offering # rest) =
     (if Has zones (StringValue (Location offering)) then
        (let name = StringValue (OfferingInstanceType offering);
             s = (case instanceTypeZones name of None \<Rightarrow> NewString [] | Some s \<Rightarrow> s)
         in zonesPage zones (instanceTypeZones(name \<mapsto> Insert s (StringValue (Location offering)))) rest)
      else zonesPage zones instanceTypeZones rest)"

definition getInstanceTypeZones ::
  "'cap Env \<Rightarrow> AWSNodeTemplate \<Rightarrow> 'cap InstanceTypeProvider
    \<Rightarrow> (err + (string \<rightharpoonup> string list)) \<times> 'cap InstanceTypeProvider" where
  "getInstanceTypeZones env nodeTemplate p =
     (case HashSelector env (SubnetSelector nodeTemplate) of
        Inl e \<Rightarrow> (Inl (Errorf ''failed to hash the subnet selector: '' e), p)
      | Inr subnetSelectorHash \<Rightarrow>
          (let cacheKey = zonesKey subnetSelectorHash in
           case Get (cache p) (Now env) cacheKey of
             Some (CZones cached) \<Rightarrow> (Inr cached, p)
           | Some _ \<Rightarrow> (Inl (Panic ''interface conversion''), p)
           | None \<Rightarrow>
               (case SubnetList env nodeTemplate of
                  Inl e \<Rightarrow> (Inl e, p)
                | Inr subnets \<Rightarrow>
                    if length subnets = 0
                    then (Inl (NoSubnetsMatched (SubnetSelector nodeTemplate)), p)
                    else
                      (let zones = NewString (map (\<lambda>subnet. StringValue (AvailabilityZone subnet)) subnets) in
                       case DescribeInstanceTypeOfferingsPages env ''availability-zone'' of
                         (pages, Some e) \<Rightarrow>
                           (Inl (Errorf ''describing instance type zone offerings, '' e), p)
                       | (pages, None) \<Rightarrow>
                           (let instanceTypeZones = foldl (zonesPage zones) Map.empty pages in
                            (Inr instanceTypeZones,
                             p\<lparr>cache := SetDefault (cache p) (Now env) cacheKey
                                          (CZones instanceTypeZones)\<rparr>))))))"

subsection \<open>The orchestrator\<close>

text \<open>
  The loop of \<^verbatim>\<open>List\<close> over the catalog. Indexing the zone map with a name it does not
  hold yields the nil set, over which \<^verbatim>\<open>createOfferings\<close> does not iterate.
\<close>

fun List_loop ::
  "'cap Env \<Rightarrow> 'cap InstanceTypeProvider \<Rightarrow> KubeletConfiguration option \<Rightarrow> AWSNodeTemplate
    \<Rightarrow> (string \<rightharpoonup> string list) \<Rightarrow> (string \<times> InstanceTypeInfo) list
    \<Rightarrow> 'cap ResolvedInstanceType list \<Rightarrow> err + 'cap ResolvedInstanceType list" where
  "List_loop env p kc nodeTemplate instanceTypeZones [] result = Inr result"
| "List_loop env p kc nodeTemplate instanceTypeZones ((k, i) # rest) result =
     (let instanceTypeName = StringValue (InstanceType i) in
      case createOfferings env i
             (case instanceTypeZones instanceTypeName of None \<Rightarrow> [] | Some zones \<Rightarrow> zones) of
        Inl e \<Rightarrow> Inl e
      | Inr offerings \<Rightarrow>
          List_loop env p kc nodeTemplate instanceTypeZones rest
            (result @ [NewInstanceType env i kc (region p) nodeTemplate offerings]))"

definition List ::
  "'cap Env \<Rightarrow> KubeletConfiguration option \<Rightarrow> AWSNodeTemplate \<Rightarrow> 'cap InstanceTypeProvider
    \<Rightarrow> (err + 'cap ResolvedInstanceType list) \<times> 'cap InstanceTypeProvider" where
  "List env kc nodeTemplate p =
     (case getInstanceTypes env p of
        (Inl e, p1) \<Rightarrow> (Inl e, p1)
      | (Inr instanceTypes, p1) \<Rightarrow>
          (case getInstanceTypeZones env nodeTemplate p1 of
             (Inl e, p2) \<Rightarrow> (Inl e, p2)
           | (Inr instanceTypeZones, p2) \<Rightarrow>
               (let instanceTypeZonesHash = HashZones env instanceTypeZones;
                    kcHash = HashKubelet env kc;
                    key = resultKey (instanceTypesSeqNum p2) (UnavailableSeqNum env)
                            (UID nodeTemplate) instanceTypeZonesHash kcHash
                in case Get (cache p2) (Now env) key of
                     Some (CResult item) \<Rightarrow> (Inr item, p2)
                   | Some _ \<Rightarrow> (Inl (Panic ''interface conversion''), p2)
                   | None \<Rightarrow>
                       (case List_loop env p2 kc nodeTemplate instanceTypeZones instanceTypes [] of
                          Inl e \<Rightarrow> (Inl e, p2)
                        | Inr result \<Rightarrow>
                            (Inr result,
                             p2\<lparr>cache := SetDefault (cache p2) (Now env) key (CResult result)\<rparr>)))))"

section \<open>Auxiliary notions\<close>

text \<open>
  The capacity types the \<^verbatim>\<open>switch\<close> of the composer knows, and the offering it appends for
  a named instance type, a zone and a known capacity type.
\<close>

definition recognized :: "string \<Rightarrow> bool" where
  "recognized capacityType =
     (capacityType = UsageClassTypeSpot \<or> capacityType = UsageClassTypeOnDemand)"

definition composed :: "'cap Env \<Rightarrow> string \<Rightarrow> string \<Rightarrow> string \<Rightarrow> Offering" where
  "composed env name zone capacityType =
     (let found = (if capacityType = UsageClassTypeSpot then SpotPrice env name zone
                   else OnDemandPrice env name)
      in \<lparr>Zone = zone, CapacityType = capacityType, Price = fst found,
          Available = (\<not> IsUnavailable env name zone capacityType \<and> snd found)\<rparr>)"

text \<open>
  The provider states that arise from a new provider by calls of its methods, with
  collaborators that may answer differently at every call.
\<close>

inductive reachable :: "'cap InstanceTypeProvider \<Rightarrow> bool" where
  reachable_new: "reachable (NewInstanceTypeProvider sessRegion)"
| reachable_types: "reachable p \<Longrightarrow> reachable (snd (getInstanceTypes env p))"
| reachable_zones: "reachable p \<Longrightarrow> reachable (snd (getInstanceTypeZones env nodeTemplate p))"
| reachable_List: "reachable p \<Longrightarrow> reachable (snd (List env kc nodeTemplate p))"

text \<open>
  Every set of a zone map has a member, and every zone map stored in a cache has that
  property.
\<close>

definition zonesNonEmpty :: "(string \<rightharpoonup> string list) \<Rightarrow> bool" where
  "zonesNonEmpty instanceTypeZones =
     (\<forall>name zones. instanceTypeZones name = Some zones \<longrightarrow> zones \<noteq> [])"

definition cachedZonesNonEmpty :: "'cap Cache \<Rightarrow> bool" where
  "cachedZonesNonEmpty c =
     (\<forall>k instanceTypeZones e. c k = Some (CZones instanceTypeZones, e)
        \<longrightarrow> zonesNonEmpty instanceTypeZones)"

subsection \<open>Sample data\<close>

text \<open>
  A catalog of two instance types, two subnets in the zones A and B, and zonal offerings
  for the first type only; its spot offering in A is marked unavailable and no spot price
  is known in B.
\<close>

definition sampleType :: InstanceTypeInfo where
  "sampleType =
     \<lparr>InstanceType = Some ''m5.large'',
      SupportedUsageClasses =
        [Some ''spot'', Some ''on-demand'', Some ''spot'', Some ''capacity-block'', None]\<rparr>"

definition otherType :: InstanceTypeInfo where
  "otherType = \<lparr>InstanceType = Some ''c5.large'', SupportedUsageClasses = [Some ''on-demand'']\<rparr>"

definition sampleEnv :: "unit Env" where
  "sampleEnv =
     \<lparr>Now = 1000,
      DescribeInstanceTypesPages = (\<lambda>f. ([[sampleType], [otherType]], None)),
      DescribeInstanceTypeOfferingsPages =
        (\<lambda>l. ([[\<lparr>OfferingInstanceType = Some ''m5.large'', Location = Some ''A''\<rparr>,
                 \<lparr>OfferingInstanceType = Some ''m5.large'', Location = Some ''C''\<rparr>],
                [\<lparr>OfferingInstanceType = Some ''m5.large'', Location = Some ''B''\<rparr>]], None)),
      SubnetList = (\<lambda>t. Inr [\<lparr>AvailabilityZone = Some ''A''\<rparr>, \<lparr>AvailabilityZone = Some ''B''\<rparr>]),
      IsUnavailable = (\<lambda>t z c. t = ''m5.large'' \<and> z = ''A'' \<and> c = ''spot''),
      UnavailableSeqNum = 0,
      SpotPrice = (\<lambda>t z. if z = ''B'' then (0, False) else (1 / 4, True)),
      OnDemandPrice = (\<lambda>t. (1, True)),
      HashSelector = (\<lambda>s. Inr 0), HashZones = (\<lambda>m. 0), HashKubelet = (\<lambda>k. 0),
      Capabilities = (\<lambda>i k r t. ())\<rparr>"

text \<open>The price tables behind the lookups of \<open>sampleEnv\<close>.\<close>

definition samplePricing :: PricingProvider where
  "samplePricing =
     \<lparr>spotPrices = (\<lambda>(t, z). if z = ''B'' then None else Some (1 / 4)),
      onDemandPrices = (\<lambda>t. Some 1),
      noPrice = 0\<rparr>"

definition sampleTemplate :: AWSNodeTemplate where
  "sampleTemplate = \<lparr>UID = ''uid-1'', SubnetSelector = [''Name'' \<mapsto> ''private'']\<rparr>"

text \<open>
  The first call of \<^verbatim>\<open>List\<close> on a new provider, at time 1000, passes through
  \<open>fetchedProvider\<close> and \<open>zonedProvider\<close> and leaves \<open>sampleProvider\<close>, with the result
  \<open>sampleResult\<close> stored under \<open>sampleKey\<close>.
\<close>

definition sampleCatalog :: "(string \<times> InstanceTypeInfo) list" where
  "sampleCatalog = [(''m5.large'', sampleType), (''c5.large'', otherType)]"

definition sampleZones :: "string \<rightharpoonup> string list" where
  "sampleZones = [''m5.large'' \<mapsto> [''A'', ''B'']]"

definition sampleResult :: "unit ResolvedInstanceType list" where
  "sampleResult =
     [\<lparr>Name = ''m5.large'', Attributes = (),
       Offerings =
         [\<lparr>Zone = ''A'', CapacityType = ''spot'', Price = 1 / 4, Available = False\<rparr>,
          \<lparr>Zone = ''A'', CapacityType = ''on-demand'', Price = 1, Available = True\<rparr>,
          \<lparr>Zone = ''B'', CapacityType = ''spot'', Price = 0, Available = False\<rparr>,
          \<lparr>Zone = ''B'', CapacityType = ''on-demand'', Price = 1, Available = True\<rparr>]\<rparr>,
      \<lparr>Name = ''c5.large'', Attributes = (), Offerings = []\<rparr>]"

definition sampleKey :: string where
  "sampleKey = ''1-0-uid-1-0000000000000000-0000000000000000''"

definition fetchedProvider :: "unit InstanceTypeProvider" where
  "fetchedProvider =
     \<lparr>region = ''us-west-2'',
      cache = [InstanceTypesCacheKey \<mapsto> (CTypes sampleCatalog, 300000001000)],
      instanceTypesSeqNum = 1\<rparr>"

definition zonedProvider :: "unit InstanceTypeProvider" where
  "zonedProvider =
     \<lparr>region = ''us-west-2'',
      cache = [InstanceTypesCacheKey \<mapsto> (CTypes sampleCatalog, 300000001000),
               zonesKey 0 \<mapsto> (CZones sampleZones, 300000001000)],
      instanceTypesSeqNum = 1\<rparr>"

definition sampleProvider :: "unit InstanceTypeProvider" where
  "sampleProvider =
     \<lparr>region = ''us-west-2'',
      cache = [InstanceTypesCacheKey \<mapsto> (CTypes sampleCatalog, 300000001000),
               zonesKey 0 \<mapsto> (CZones sampleZones, 300000001000),
               sampleKey \<mapsto> (CResult sampleResult, 300000001000)],
      instanceTypesSeqNum = 1\<rparr>"

text \<open>
  Later situations: the subnet selector matches nothing, at the first call or at a second
  call within the expiration window; a second call within the window while EC2 and the
  subnet provider fail and the prices have moved; and a call just after the cached
  catalog has expired, with the same catalog upstream.
\<close>

definition failingEnv :: "unit Env" where
  "failingEnv = sampleEnv\<lparr>SubnetList := \<lambda>t. Inr []\<rparr>"

definition staleEnv :: "unit Env" where
  "staleEnv = sampleEnv\<lparr>Now := 2000, SubnetList := \<lambda>t. Inr []\<rparr>"

definition laterEnv :: "unit Env" where
  "laterEnv =
     sampleEnv\<lparr>Now := 2000,
               DescribeInstanceTypesPages := \<lambda>f. ([], Some (Upstream ''throttled'')),
               DescribeInstanceTypeOfferingsPages := \<lambda>l. ([], Some (Upstream ''throttled'')),
               SubnetList := \<lambda>t. Inl (Upstream ''throttled''),
               SpotPrice := \<lambda>t z. (7, True),
               OnDemandPrice := \<lambda>t. (0, False)\<rparr>"

definition expiredEnv :: "unit Env" where
  "expiredEnv = sampleEnv\<lparr>Now := 300000001001\<rparr>"

section \<open>Properties of the offering composer\<close>

lemma set_foldl_Insert: "set (foldl Insert s items) = set s \<union> set items"
  by (induction items arbitrary: s) (auto simp: Insert_def)

lemma distinct_foldl_Insert: "distinct s \<Longrightarrow> distinct (foldl Insert s items)"
  by (induction items arbitrary: s) (auto simp: Insert_def)

lemma set_NewString: "set (NewString items) = set items"
  by (simp add: NewString_def set_foldl_Insert)

lemma distinct_NewString: "distinct (NewString items)"
  by (simp add: NewString_def distinct_foldl_Insert)

lemma createOfferings_zone_closed:
  "InstanceType it = Some name \<Longrightarrow>
   createOfferings_zone env it zone cts acc =
     Inr (acc @ map (composed env name zone) (filter recognized cts))"
  by (induction cts arbitrary: acc)
     (auto simp: composed_def recognized_def Let_def split: prod.splits)

lemma createOfferings_zones_closed:
  "InstanceType it = Some name \<Longrightarrow>
   createOfferings_zones env it zones acc =
     Inr (acc @ concat (map (\<lambda>zone. map (composed env name zone)
            (filter recognized (NewString (StringValueSlice (SupportedUsageClasses it))))) zones))"
  by (induction zones arbitrary: acc) (simp_all add: createOfferings_zone_closed)

lemma createOfferings_closed:
  "InstanceType it = Some name \<Longrightarrow>
   createOfferings env it zones =
     Inr (concat (map (\<lambda>zone. map (composed env name zone)
            (filter recognized (NewString (StringValueSlice (SupportedUsageClasses it))))) zones))"
  by (simp add: createOfferings_def createOfferings_zones_closed)

lemma createOfferings_nil: "createOfferings env it [] = Inr []"
  by (simp add: createOfferings_def)

text \<open>
  A record without a name makes the first pass through the inner loop panic; the
  theorems below are about records that carry one.
\<close>

lemma createOfferings_nil_name:
  assumes "InstanceType it = None" and "zones \<noteq> []" and "SupportedUsageClasses it \<noteq> []"
  shows "createOfferings env it zones = Inl (Panic ''nil pointer dereference'')"
proof -
  obtain zone rest where z: "zones = zone # rest"
    using assms(2) by (cases zones) auto
  have "set (NewString (StringValueSlice (SupportedUsageClasses it))) \<noteq> {}"
    using assms(3) by (simp add: set_NewString StringValueSlice_def)
  then obtain c cs where "NewString (StringValueSlice (SupportedUsageClasses it)) = c # cs"
    by (cases "NewString (StringValueSlice (SupportedUsageClasses it))") auto
  with assms(1) z show ?thesis
    by (simp add: createOfferings_def)
qed

lemma Zone_composed: "Zone (composed env name zone ct) = zone"
  and CapacityType_composed: "CapacityType (composed env name zone ct) = ct"
  by (simp_all add: composed_def Let_def)

lemma pairs_closed:
  "map (\<lambda>o'. (Zone o', CapacityType o'))
     (concat (map (\<lambda>zone. map (composed env name zone) cts) zones))
   = List.product zones cts"
  by (induction zones) (simp_all add: Zone_composed CapacityType_composed comp_def)

text \<open>
  Claim C1. For an instance type record with a name and a zone set, the composer returns
  a list whose (zone, capacity type) pairs are pairwise different and are exactly the
  pairs of a zone of the set and a capacity type that is spot or on-demand and occurs in
  the supported usage classes: duplicates in that list collapse, unknown usage classes
  are skipped and do not fail the composition, and nothing else appears.
\<close>

theorem createOfferings_complete:
  assumes "InstanceType it = Some name" and "distinct zones"
  shows "\<exists>offerings. createOfferings env it zones = Inr offerings
           \<and> distinct (map (\<lambda>x. (Zone x, CapacityType x)) offerings)
           \<and> set (map (\<lambda>x. (Zone x, CapacityType x)) offerings)
               = set zones \<times> ({UsageClassTypeSpot, UsageClassTypeOnDemand}
                     \<inter> set (StringValueSlice (SupportedUsageClasses it)))"
proof -
  let ?cts = "filter recognized (NewString (StringValueSlice (SupportedUsageClasses it)))"
  let ?offs = "concat (map (\<lambda>zone. map (composed env name zone) ?cts) zones)"
  have run: "createOfferings env it zones = Inr ?offs"
    using assms(1) by (rule createOfferings_closed)
  have pairs: "map (\<lambda>x. (Zone x, CapacityType x)) ?offs = List.product zones ?cts"
    by (rule pairs_closed)
  have d: "distinct (List.product zones ?cts)"
    using assms(2) by (simp add: distinct_product distinct_NewString)
  have s: "set (List.product zones ?cts)
      = set zones \<times> ({UsageClassTypeSpot, UsageClassTypeOnDemand}
                     \<inter> set (StringValueSlice (SupportedUsageClasses it)))"
    by (auto simp: set_NewString recognized_def)
  show ?thesis
  proof (intro exI conjI)
    show "createOfferings env it zones = Inr ?offs" by (rule run)
    show "distinct (map (\<lambda>x. (Zone x, CapacityType x)) ?offs)"
      unfolding pairs by (rule d)
    show "set (map (\<lambda>x. (Zone x, CapacityType x)) ?offs)
               = set zones \<times> ({UsageClassTypeSpot, UsageClassTypeOnDemand}
                     \<inter> set (StringValueSlice (SupportedUsageClasses it)))"
      unfolding pairs by (rule s)
  qed
qed

text \<open>
  The sample type lists spot twice, on-demand, an unknown class and a nil entry; over the
  zones A and B the four pairs of the spec's example come out.
\<close>

theorem createOfferings_complete_witness:
  "InstanceType sampleType = Some ''m5.large'' \<and> distinct [''A'', ''B''] \<and>
   (\<exists>offerings. createOfferings sampleEnv sampleType [''A'', ''B''] = Inr offerings
      \<and> distinct (map (\<lambda>x. (Zone x, CapacityType x)) offerings)
      \<and> set (map (\<lambda>x. (Zone x, CapacityType x)) offerings)
          = {(''A'', ''spot''), (''A'', ''on-demand''), (''B'', ''spot''), (''B'', ''on-demand'')})"
proof -
  have n: "InstanceType sampleType = Some ''m5.large''"
    by (simp add: sampleType_def)
  have d: "distinct [''A'', ''B'']"
    by simp
  have s: "set [''A'', ''B''] \<times> ({UsageClassTypeSpot, UsageClassTypeOnDemand}
              \<inter> set (StringValueSlice (SupportedUsageClasses sampleType)))
           = {(''A'', ''spot''), (''A'', ''on-demand''), (''B'', ''spot''), (''B'', ''on-demand'')}"
    by (auto simp: sampleType_def StringValueSlice_def StringValue_def
          UsageClassTypeSpot_def UsageClassTypeOnDemand_def)
  show ?thesis
    using createOfferings_complete [OF n d, of sampleEnv] n d unfolding s by simp
qed

lemma sample_run:
  "createOfferings sampleEnv sampleType [''A'', ''B''] =
     Inr [\<lparr>Zone = ''A'', CapacityType = ''spot'', Price = 1 / 4, Available = False\<rparr>,
          \<lparr>Zone = ''A'', CapacityType = ''on-demand'', Price = 1, Available = True\<rparr>,
          \<lparr>Zone = ''B'', CapacityType = ''spot'', Price = 0, Available = False\<rparr>,
          \<lparr>Zone = ''B'', CapacityType = ''on-demand'', Price = 1, Available = True\<rparr>]"
  by (simp add: createOfferings_def sampleEnv_def sampleType_def NewString_def Insert_def
       StringValueSlice_def StringValue_def UsageClassTypeSpot_def UsageClassTypeOnDemand_def)

lemma composed_marked:
  "composed (env\<lparr>IsUnavailable := \<lambda>t z c. (t = name \<and> z = zone \<and> c = capacityType)
                                           \<or> IsUnavailable env t z c\<rparr>) name z' c'
   = (if z' = zone \<and> c' = capacityType then (composed env name z' c')\<lparr>Available := False\<rparr>
      else composed env name z' c')"
  by (simp add: composed_def Let_def)

lemma marked_closed:
  "map (\<lambda>x. if Zone x = zone \<and> CapacityType x = capacityType then x\<lparr>Available := False\<rparr> else x)
     (concat (map (\<lambda>z. map (composed env name z) cts) zones))
   = concat (map (\<lambda>z. map (composed (env\<lparr>IsUnavailable := \<lambda>t z c.
        (t = name \<and> z = zone \<and> c = capacityType) \<or> IsUnavailable env t z c\<rparr>) name z) cts) zones)"
  by (induction zones) (simp_all add: composed_marked Zone_composed CapacityType_composed)

lemma composed_Available:
  "Available (composed env name zone ct) =
     (\<not> IsUnavailable env name zone ct
      \<and> (if ct = UsageClassTypeSpot then snd (SpotPrice env name zone)
         else snd (OnDemandPrice env name)))"
  by (simp add: composed_def Let_def)

lemma in_closed:
  "x \<in> set (concat (map (\<lambda>z. map (composed env name z) cts) zones))
   \<longleftrightarrow> (\<exists>z \<in> set zones. \<exists>c \<in> set cts. x = composed env name z c)"
  by auto

text \<open>
  Claim C3. An offering whose (instance type, zone, capacity type) triple the tracker
  marks unavailable is not available, whatever the price lookup said; an offering is
  available exactly when its triple is not marked and its price was found; and marking
  one more triple changes the composed list in the offering of that zone and capacity
  type only, whose availability becomes false.
\<close>

theorem createOfferings_masking:
  assumes "InstanceType it = Some name"
    and "createOfferings env it zones = Inr offerings"
  shows "(\<forall>x \<in> set offerings.
            IsUnavailable env name (Zone x) (CapacityType x) \<longrightarrow> \<not> Available x)
       \<and> (\<forall>x \<in> set offerings.
            Available x =
              (\<not> IsUnavailable env name (Zone x) (CapacityType x)
               \<and> (if CapacityType x = UsageClassTypeSpot then snd (SpotPrice env name (Zone x))
                  else snd (OnDemandPrice env name))))
       \<and> createOfferings
            (env\<lparr>IsUnavailable := \<lambda>t z c. (t = name \<and> z = zone \<and> c = capacityType)
                                            \<or> IsUnavailable env t z c\<rparr>) it zones
          = Inr (map (\<lambda>x. if Zone x = zone \<and> CapacityType x = capacityType
                          then x\<lparr>Available := False\<rparr> else x) offerings)"
proof -
  let ?cts = "filter recognized (NewString (StringValueSlice (SupportedUsageClasses it)))"
  have offs: "offerings = concat (map (\<lambda>z. map (composed env name z) ?cts) zones)"
    using assms by (simp add: createOfferings_closed)
  have avail: "Available x =
              (\<not> IsUnavailable env name (Zone x) (CapacityType x)
               \<and> (if CapacityType x = UsageClassTypeSpot then snd (SpotPrice env name (Zone x))
                  else snd (OnDemandPrice env name)))" if "x \<in> set offerings" for x
  proof -
    from that obtain z c where "x = composed env name z c"
      unfolding offs in_closed by blast
    then show ?thesis
      by (simp add: composed_Available Zone_composed CapacityType_composed)
  qed
  have marked: "createOfferings
            (env\<lparr>IsUnavailable := \<lambda>t z c. (t = name \<and> z = zone \<and> c = capacityType)
                                            \<or> IsUnavailable env t z c\<rparr>) it zones
          = Inr (map (\<lambda>x. if Zone x = zone \<and> CapacityType x = capacityType
                          then x\<lparr>Available := False\<rparr> else x) offerings)"
    unfolding offs marked_closed using assms(1) by (rule createOfferings_closed)
  from avail marked show ?thesis by blast
qed

theorem createOfferings_masking_witness:
  "InstanceType sampleType = Some ''m5.large''
   \<and> createOfferings sampleEnv sampleType [''A'', ''B''] =
       Inr [\<lparr>Zone = ''A'', CapacityType = ''spot'', Price = 1 / 4, Available = False\<rparr>,
            \<lparr>Zone = ''A'', CapacityType = ''on-demand'', Price = 1, Available = True\<rparr>,
            \<lparr>Zone = ''B'', CapacityType = ''spot'', Price = 0, Available = False\<rparr>,
            \<lparr>Zone = ''B'', CapacityType = ''on-demand'', Price = 1, Available = True\<rparr>]
   \<and> createOfferings
       (sampleEnv\<lparr>IsUnavailable := \<lambda>t z c. (t = ''m5.large'' \<and> z = ''B'' \<and> c = ''on-demand'')
                                             \<or> IsUnavailable sampleEnv t z c\<rparr>)
       sampleType [''A'', ''B''] =
       Inr [\<lparr>Zone = ''A'', CapacityType = ''spot'', Price = 1 / 4, Available = False\<rparr>,
            \<lparr>Zone = ''A'', CapacityType = ''on-demand'', Price = 1, Available = True\<rparr>,
            \<lparr>Zone = ''B'', CapacityType = ''spot'', Price = 0, Available = False\<rparr>,
            \<lparr>Zone = ''B'', CapacityType = ''on-demand'', Price = 1, Available = False\<rparr>]"
proof -
  have n: "InstanceType sampleType = Some ''m5.large''"
    by (simp add: sampleType_def)
  show ?thesis
    using createOfferings_masking [OF n sample_run, of "''B''" "''on-demand''"] n sample_run
    by simp
qed

text \<open>
  Whatever the price lookups are, a lookup that reports nothing found still leaves its
  offering in the result, not available and priced with the value the lookup returned.
\<close>

lemma createOfferings_failed_lookup:
  assumes "InstanceType it = Some name"
    and "zone \<in> set zones"
    and "capacityType \<in> set (StringValueSlice (SupportedUsageClasses it))"
    and "(capacityType = UsageClassTypeSpot \<and> SpotPrice env name zone = (price, False))
         \<or> (capacityType = UsageClassTypeOnDemand \<and> OnDemandPrice env name = (price, False))"
  shows "\<exists>offerings. createOfferings env it zones = Inr offerings
           \<and> \<lparr>Zone = zone, CapacityType = capacityType, Price = price, Available = False\<rparr>
               \<in> set offerings"
proof -
  let ?cts = "filter recognized (NewString (StringValueSlice (SupportedUsageClasses it)))"
  have c: "capacityType \<in> set ?cts"
    using assms(3,4) by (auto simp: set_NewString recognized_def)
  have "composed env name zone capacityType
          = \<lparr>Zone = zone, CapacityType = capacityType, Price = price, Available = False\<rparr>"
    using assms(4) by (auto simp: composed_def UsageClassTypeSpot_def UsageClassTypeOnDemand_def)
  then have "\<lparr>Zone = zone, CapacityType = capacityType, Price = price, Available = False\<rparr>
      \<in> set (concat (map (\<lambda>z. map (composed env name z) ?cts) zones))"
    unfolding in_closed using assms(2) c by metis
  then show ?thesis
    using assms(1) by (simp only: createOfferings_closed) blast
qed

lemma composed_unpriced:
  assumes "SpotPrice env = PricingProvider_SpotPrice pricing"
    and "OnDemandPrice env = PricingProvider_OnDemandPrice pricing"
    and "recognized c"
    and "(c = UsageClassTypeSpot \<and> spotPrices pricing (name, z) = None)
         \<or> (c = UsageClassTypeOnDemand \<and> onDemandPrices pricing name = None)"
  shows "Price (composed env name z c) = noPrice pricing \<and> \<not> Available (composed env name z c)"
  using assms
  by (auto simp: composed_def Let_def PricingProvider_SpotPrice_def
      PricingProvider_OnDemandPrice_def UsageClassTypeSpot_def UsageClassTypeOnDemand_def)

text \<open>
  Claim C4. With the pricing provider of the spec behind the two lookups: when the tables
  hold no price for a zone of the set and a known, supported capacity type, the composer
  still succeeds and its result contains the offering of that zone and capacity type, not
  available and priced with the provider's "no price" sentinel; and every offering of the
  result whose price the tables lack is not available and carries that same sentinel.
\<close>

theorem createOfferings_missing_price:
  assumes "InstanceType it = Some name"
    and "SpotPrice env = PricingProvider_SpotPrice pricing"
    and "OnDemandPrice env = PricingProvider_OnDemandPrice pricing"
    and "zone \<in> set zones"
    and "capacityType \<in> set (StringValueSlice (SupportedUsageClasses it))"
    and "(capacityType = UsageClassTypeSpot \<and> spotPrices pricing (name, zone) = None)
         \<or> (capacityType = UsageClassTypeOnDemand \<and> onDemandPrices pricing name = None)"
  shows "\<exists>offerings. createOfferings env it zones = Inr offerings
           \<and> \<lparr>Zone = zone, CapacityType = capacityType, Price = noPrice pricing,
               Available = False\<rparr> \<in> set offerings
           \<and> (\<forall>x \<in> set offerings.
                 (CapacityType x = UsageClassTypeSpot
                    \<and> spotPrices pricing (name, Zone x) = None)
                 \<or> (CapacityType x = UsageClassTypeOnDemand
                    \<and> onDemandPrices pricing name = None)
                 \<longrightarrow> Price x = noPrice pricing \<and> \<not> Available x)"
proof -
  let ?cts = "filter recognized (NewString (StringValueSlice (SupportedUsageClasses it)))"
  let ?offs = "concat (map (\<lambda>z. map (composed env name z) ?cts) zones)"
  have run: "createOfferings env it zones = Inr ?offs"
    using assms(1) by (rule createOfferings_closed)
  have lookup: "(capacityType = UsageClassTypeSpot
                   \<and> SpotPrice env name zone = (noPrice pricing, False))
         \<or> (capacityType = UsageClassTypeOnDemand
                   \<and> OnDemandPrice env name = (noPrice pricing, False))"
    using assms(2,3,6)
    by (auto simp: PricingProvider_SpotPrice_def PricingProvider_OnDemandPrice_def)
  from createOfferings_failed_lookup [OF assms(1,4,5) lookup]
  have member: "\<lparr>Zone = zone, CapacityType = capacityType, Price = noPrice pricing,
               Available = False\<rparr> \<in> set ?offs"
    by (simp add: run)
  have all: "Price x = noPrice pricing \<and> \<not> Available x"
    if "x \<in> set ?offs"
      and "(CapacityType x = UsageClassTypeSpot \<and> spotPrices pricing (name, Zone x) = None)
         \<or> (CapacityType x = UsageClassTypeOnDemand \<and> onDemandPrices pricing name = None)"
    for x
  proof -
    from that(1) obtain z c where x: "x = composed env name z c" and c: "c \<in> set ?cts"
      unfolding in_closed by blast
    from c have r: "recognized c" by simp
    from that(2) have "(c = UsageClassTypeSpot \<and> spotPrices pricing (name, z) = None)
         \<or> (c = UsageClassTypeOnDemand \<and> onDemandPrices pricing name = None)"
      by (simp add: x Zone_composed CapacityType_composed)
    from composed_unpriced [OF assms(2,3) r this] show ?thesis
      by (simp add: x)
  qed
  show ?thesis
    using run member all by blast
qed

lemma sample_pricing:
  "SpotPrice sampleEnv = PricingProvider_SpotPrice samplePricing"
  "OnDemandPrice sampleEnv = PricingProvider_OnDemandPrice samplePricing"
  by (simp_all add: fun_eq_iff sampleEnv_def samplePricing_def PricingProvider_SpotPrice_def
      PricingProvider_OnDemandPrice_def)

theorem createOfferings_missing_price_witness:
  "InstanceType sampleType = Some ''m5.large''
   \<and> SpotPrice sampleEnv = PricingProvider_SpotPrice samplePricing
   \<and> OnDemandPrice sampleEnv = PricingProvider_OnDemandPrice samplePricing
   \<and> ''B'' \<in> set [''A'', ''B'']
   \<and> ''spot'' \<in> set (StringValueSlice (SupportedUsageClasses sampleType))
   \<and> spotPrices samplePricing (''m5.large'', ''B'') = None
   \<and> noPrice samplePricing = 0
   \<and> (\<exists>offerings. createOfferings sampleEnv sampleType [''A'', ''B''] = Inr offerings
         \<and> \<lparr>Zone = ''B'', CapacityType = ''spot'', Price = 0, Available = False\<rparr> \<in> set offerings)"
proof -
  have n: "InstanceType sampleType = Some ''m5.large''"
    by (simp add: sampleType_def)
  have z: "''B'' \<in> set [''A'', ''B'']"
    by simp
  have c: "''spot'' \<in> set (StringValueSlice (SupportedUsageClasses sampleType))"
    by (simp add: sampleType_def StringValueSlice_def StringValue_def)
  have l: "spotPrices samplePricing (''m5.large'', ''B'') = None"
    and s: "noPrice samplePricing = 0"
    by (simp_all add: samplePricing_def)
  have h: "(''spot'' = UsageClassTypeSpot \<and> spotPrices samplePricing (''m5.large'', ''B'') = None)
         \<or> (''spot'' = UsageClassTypeOnDemand \<and> onDemandPrices samplePricing ''m5.large'' = None)"
    using l by (simp add: UsageClassTypeSpot_def)
  from createOfferings_missing_price [OF n sample_pricing z c h]
  have "\<exists>offerings. createOfferings sampleEnv sampleType [''A'', ''B''] = Inr offerings
         \<and> \<lparr>Zone = ''B'', CapacityType = ''spot'', Price = 0, Available = False\<rparr> \<in> set offerings"
    unfolding s by blast
  with n sample_pricing z c l s show ?thesis
    by blast
qed

section \<open>Cache keys and cache operations\<close>

text \<open>
  A result key starts with a decimal digit, so it differs from the catalog key and from
  every zone key; the three kinds of entry never overwrite one another.
\<close>

lemma fmt_d_Cons: "\<exists>c cs. fmt_d n = c # cs \<and> c \<in> set ''0123456789''"
proof (induction n rule: fmt_d.induct)
  case (1 n)
  show ?case
  proof (cases "n < 10")
    case True
    then have "n \<in> {0, 1, 2, 3, 4, 5, 6, 7, 8, 9}" by auto
    then have "digit n \<in> set ''0123456789''"
      by (auto simp: digit_def)
    with True show ?thesis
      by (subst fmt_d.simps) simp
  next
    case False
    with "1" obtain c cs where "fmt_d (n div 10) = c # cs" "c \<in> set ''0123456789''"
      by blast
    with False show ?thesis
      by (subst fmt_d.simps) simp
  qed
qed

lemma resultKey_Cons:
  "\<exists>c cs. resultKey s u uid zh kh = c # cs \<and> c \<in> set ''0123456789''"
proof -
  obtain c cs where "fmt_d (unat s) = c # cs" "c \<in> set ''0123456789''"
    using fmt_d_Cons by blast
  then show ?thesis
    by (simp add: resultKey_def)
qed

lemma resultKey_not_types: "resultKey s u uid zh kh \<noteq> InstanceTypesCacheKey"
  using resultKey_Cons [of s u uid zh kh] by (auto simp: InstanceTypesCacheKey_def)

lemma resultKey_not_zonesKey: "resultKey s u uid zh kh \<noteq> zonesKey h"
  using resultKey_Cons [of s u uid zh kh]
  by (auto simp: zonesKey_def InstanceTypeZonesCacheKeyPrefix_def)

lemma zonesKey_not_types: "zonesKey h \<noteq> InstanceTypesCacheKey"
  by (simp add: zonesKey_def InstanceTypeZonesCacheKeyPrefix_def InstanceTypesCacheKey_def)

lemmas keys_distinct =
  resultKey_not_types resultKey_not_zonesKey zonesKey_not_types
  resultKey_not_types [symmetric] resultKey_not_zonesKey [symmetric] zonesKey_not_types [symmetric]

lemma Get_SetDefault_other:
  "k' \<noteq> k \<Longrightarrow> Get (SetDefault c now k x) now' k' = Get c now' k'"
  by (simp add: Get_def SetDefault_def)

lemma Get_SetDefault_same: "Get (SetDefault c now k x) now k = Some x"
  by (simp add: Get_def SetDefault_def InstanceTypesAndZonesCacheTTL_def)

lemma Get_Some_stored: "Get c now k = Some x \<Longrightarrow> \<exists>e. c k = Some (x, e)"
  by (auto simp: Get_def split: option.splits if_splits)

lemma Get_stored: "c k = Some (x, e) \<Longrightarrow> Get c now k \<noteq> None \<Longrightarrow> Get c now k = Some x"
  by (auto simp: Get_def split: option.splits if_splits)

section \<open>The catalog fetch\<close>

lemma getInstanceTypes_hit:
  "Get (cache p) (Now env) InstanceTypesCacheKey = Some (CTypes cached)
   \<Longrightarrow> getInstanceTypes env p = (Inr cached, p)"
  by (simp add: getInstanceTypes_def)

lemma getInstanceTypes_Inl: "getInstanceTypes env p = (Inl e, p') \<Longrightarrow> p' = p"
  by (auto simp: getInstanceTypes_def Let_def
      split: option.splits CacheValue.splits prod.splits)

lemma getInstanceTypes_Inr:
  assumes "getInstanceTypes env p = (Inr instanceTypes, p')"
  shows "(Get (cache p) (Now env) InstanceTypesCacheKey = Some (CTypes instanceTypes) \<and> p' = p)
       \<or> (Get (cache p) (Now env) InstanceTypesCacheKey = None
           \<and> (\<exists>pages. DescribeInstanceTypesPages env instanceTypeFilters = (pages, None)
                \<and> instanceTypes = foldl typesPage [] pages)
           \<and> p' = p\<lparr>instanceTypesSeqNum := instanceTypesSeqNum p + 1,
                    cache := SetDefault (cache p) (Now env) InstanceTypesCacheKey
                               (CTypes instanceTypes)\<rparr>)"
  using assms
  by (auto simp: getInstanceTypes_def Let_def
      split: option.splits CacheValue.splits prod.splits)

text \<open>A successful fetch that was not served from the cache adds one to the sequence number.\<close>

lemma getInstanceTypes_seq:
  assumes "getInstanceTypes env p = (Inr instanceTypes, p')"
  shows "instanceTypesSeqNum p' =
           (if Get (cache p) (Now env) InstanceTypesCacheKey = None
            then instanceTypesSeqNum p + 1 else instanceTypesSeqNum p)"
  using getInstanceTypes_Inr [OF assms] by auto

lemma getInstanceTypes_cache:
  assumes "getInstanceTypes env p = (r, p')" and "k \<noteq> InstanceTypesCacheKey"
  shows "cache p' k = cache p k"
  using assms
  by (auto simp: getInstanceTypes_def Let_def SetDefault_def
      split: option.splits CacheValue.splits prod.splits)

lemma getInstanceTypes_region:
  "getInstanceTypes env p = (r, p') \<Longrightarrow> region p' = region p"
  by (auto simp: getInstanceTypes_def Let_def
      split: option.splits CacheValue.splits prod.splits)

section \<open>The zone-map fetch\<close>

lemma getInstanceTypeZones_hit:
  "HashSelector env (SubnetSelector nodeTemplate) = Inr h
   \<Longrightarrow> Get (cache p) (Now env) (zonesKey h) = Some (CZones cached)
   \<Longrightarrow> getInstanceTypeZones env nodeTemplate p = (Inr cached, p)"
  by (simp add: getInstanceTypeZones_def)

lemma getInstanceTypeZones_Inl:
  "getInstanceTypeZones env nodeTemplate p = (Inl e, p') \<Longrightarrow> p' = p"
  by (auto simp: getInstanceTypeZones_def Let_def
      split: sum.splits option.splits CacheValue.splits prod.splits if_splits)

lemma getInstanceTypeZones_Inr:
  assumes "getInstanceTypeZones env nodeTemplate p = (Inr instanceTypeZones, p')"
  shows "\<exists>h. HashSelector env (SubnetSelector nodeTemplate) = Inr h
      \<and> ((Get (cache p) (Now env) (zonesKey h) = Some (CZones instanceTypeZones) \<and> p' = p)
         \<or> (Get (cache p) (Now env) (zonesKey h) = None
            \<and> (\<exists>subnets pages. SubnetList env nodeTemplate = Inr subnets \<and> subnets \<noteq> []
                 \<and> DescribeInstanceTypeOfferingsPages env ''availability-zone'' = (pages, None)
                 \<and> instanceTypeZones =
                     foldl (zonesPage (NewString (map (\<lambda>subnet. StringValue (AvailabilityZone subnet))
                                                   subnets))) Map.empty pages)
            \<and> p' = p\<lparr>cache := SetDefault (cache p) (Now env) (zonesKey h)
                                  (CZones instanceTypeZones)\<rparr>))"
  using assms
  by (auto simp: getInstanceTypeZones_def Let_def
      split: sum.splits option.splits CacheValue.splits prod.splits if_splits)

lemma getInstanceTypeZones_seq:
  "getInstanceTypeZones env nodeTemplate p = (r, p')
   \<Longrightarrow> instanceTypesSeqNum p' = instanceTypesSeqNum p \<and> region p' = region p"
  by (auto simp: getInstanceTypeZones_def Let_def
      split: sum.splits option.splits CacheValue.splits prod.splits if_splits)

lemma getInstanceTypeZones_cache_other:
  assumes "getInstanceTypeZones env nodeTemplate p = (r, p')" and "\<And>h. k \<noteq> zonesKey h"
  shows "cache p' k = cache p k"
  using assms
  by (auto simp: getInstanceTypeZones_def Let_def SetDefault_def
      split: sum.splits option.splits CacheValue.splits prod.splits if_splits)

lemma getInstanceTypeZones_cache:
  assumes "getInstanceTypeZones env nodeTemplate p = (r, p')"
  shows "cache p' (resultKey s u uid zh kh) = cache p (resultKey s u uid zh kh)"
    and "cache p' InstanceTypesCacheKey = cache p InstanceTypesCacheKey"
proof -
  show "cache p' (resultKey s u uid zh kh) = cache p (resultKey s u uid zh kh)"
    using assms by (rule getInstanceTypeZones_cache_other) (rule resultKey_not_zonesKey)
  have "\<And>h. InstanceTypesCacheKey \<noteq> zonesKey h"
    using zonesKey_not_types by (rule not_sym)
  with assms show "cache p' InstanceTypesCacheKey = cache p InstanceTypesCacheKey"
    by (rule getInstanceTypeZones_cache_other)
qed

section \<open>Properties of the orchestrator\<close>

lemma List_loop_closed:
  assumes "\<forall>(k, i) \<in> set instanceTypes. InstanceType i \<noteq> None"
  shows "\<exists>rs. List_loop env p kc nodeTemplate instanceTypeZones instanceTypes result
               = Inr (result @ rs)
           \<and> list_all2
               (\<lambda>(k, i) r. \<exists>offerings.
                   createOfferings env i
                     (case instanceTypeZones (StringValue (InstanceType i)) of
                        None \<Rightarrow> [] | Some zones \<Rightarrow> zones) = Inr offerings
                   \<and> r = NewInstanceType env i kc (region p) nodeTemplate offerings)
               instanceTypes rs"
  using assms
proof (induction instanceTypes arbitrary: result)
  case Nil
  then show ?case by simp
next
  case (Cons a instanceTypes)
  obtain k i where a: "a = (k, i)" by (cases a)
  with Cons.prems obtain name where name: "InstanceType i = Some name"
    by auto
  let ?zones = "case instanceTypeZones (StringValue (InstanceType i)) of
                  None \<Rightarrow> [] | Some zones \<Rightarrow> zones"
  obtain offerings where run: "createOfferings env i ?zones = Inr offerings"
    using createOfferings_closed [OF name] by blast
  let ?r = "NewInstanceType env i kc (region p) nodeTemplate offerings"
  from Cons.prems have "\<forall>(k, i) \<in> set instanceTypes. InstanceType i \<noteq> None"
    by simp
  from Cons.IH [OF this, of "result @ [?r]"] obtain rs where
    rs: "List_loop env p kc nodeTemplate instanceTypeZones instanceTypes (result @ [?r])
           = Inr ((result @ [?r]) @ rs)"
    and all: "list_all2
               (\<lambda>(k, i) r. \<exists>offerings.
                   createOfferings env i
                     (case instanceTypeZones (StringValue (InstanceType i)) of
                        None \<Rightarrow> [] | Some zones \<Rightarrow> zones) = Inr offerings
                   \<and> r = NewInstanceType env i kc (region p) nodeTemplate offerings)
               instanceTypes rs"
    by blast
  have "List_loop env p kc nodeTemplate instanceTypeZones (a # instanceTypes) result
          = Inr (result @ (?r # rs))"
    using rs run by (simp add: a Let_def)
  moreover have "list_all2
               (\<lambda>(k, i) r. \<exists>offerings.
                   createOfferings env i
                     (case instanceTypeZones (StringValue (InstanceType i)) of
                        None \<Rightarrow> [] | Some zones \<Rightarrow> zones) = Inr offerings
                   \<and> r = NewInstanceType env i kc (region p) nodeTemplate offerings)
               (a # instanceTypes) (?r # rs)"
    using all run by (simp add: a)
  ultimately show ?case by blast
qed

lemma List_Inl_types:
  "getInstanceTypes env p = (Inl e, p') \<Longrightarrow> List env kc nodeTemplate p = (Inl e, p')"
  by (simp add: List_def)

lemma List_Inl_zones:
  "getInstanceTypes env p = (Inr instanceTypes, p1)
   \<Longrightarrow> getInstanceTypeZones env nodeTemplate p1 = (Inl e, p')
   \<Longrightarrow> List env kc nodeTemplate p = (Inl e, p')"
  by (simp add: List_def)

lemma List_hit:
  "getInstanceTypes env p = (Inr instanceTypes, p1)
   \<Longrightarrow> getInstanceTypeZones env nodeTemplate p1 = (Inr instanceTypeZones, p2)
   \<Longrightarrow> Get (cache p2) (Now env)
         (resultKey (instanceTypesSeqNum p2) (UnavailableSeqNum env) (UID nodeTemplate)
            (HashZones env instanceTypeZones) (HashKubelet env kc)) = Some (CResult item)
   \<Longrightarrow> List env kc nodeTemplate p = (Inr item, p2)"
  by (simp add: List_def Let_def)

lemma List_miss:
  "getInstanceTypes env p = (Inr instanceTypes, p1)
   \<Longrightarrow> getInstanceTypeZones env nodeTemplate p1 = (Inr instanceTypeZones, p2)
   \<Longrightarrow> Get (cache p2) (Now env)
         (resultKey (instanceTypesSeqNum p2) (UnavailableSeqNum env) (UID nodeTemplate)
            (HashZones env instanceTypeZones) (HashKubelet env kc)) = None
   \<Longrightarrow> List_loop env p2 kc nodeTemplate instanceTypeZones instanceTypes [] = Inr result
   \<Longrightarrow> List env kc nodeTemplate p =
         (Inr result,
          p2\<lparr>cache := SetDefault (cache p2) (Now env)
             (resultKey (instanceTypesSeqNum p2) (UnavailableSeqNum env) (UID nodeTemplate)
                (HashZones env instanceTypeZones) (HashKubelet env kc)) (CResult result)\<rparr>)"
  by (simp add: List_def Let_def)

lemma List_Inr:
  assumes "List env kc nodeTemplate p = (Inr result, p')"
  shows "\<exists>instanceTypes p1 instanceTypeZones p2.
           getInstanceTypes env p = (Inr instanceTypes, p1)
         \<and> getInstanceTypeZones env nodeTemplate p1 = (Inr instanceTypeZones, p2)
         \<and> (\<exists>e. cache p'
               (resultKey (instanceTypesSeqNum p2) (UnavailableSeqNum env) (UID nodeTemplate)
                  (HashZones env instanceTypeZones) (HashKubelet env kc))
               = Some (CResult result, e))
         \<and> instanceTypesSeqNum p' = instanceTypesSeqNum p2
         \<and> region p' = region p2
         \<and> cache p' InstanceTypesCacheKey = cache p2 InstanceTypesCacheKey
         \<and> (\<forall>h. cache p' (zonesKey h) = cache p2 (zonesKey h))"
  using assms
  by (auto simp: List_def Let_def SetDefault_def keys_distinct dest: Get_Some_stored
      split: sum.splits option.splits CacheValue.splits prod.splits if_splits)


subsection \<open>The sample run\<close>

lemma sample_key:
  "resultKey 1 (UnavailableSeqNum sampleEnv) (UID sampleTemplate) (HashZones sampleEnv zm)
     (HashKubelet sampleEnv kc) = sampleKey"
  by (simp add: resultKey_def fmt_016x_def digit_def upt_rec fmt_d.simps sampleKey_def
      sampleEnv_def sampleTemplate_def)

lemma sample_getInstanceTypes:
  "getInstanceTypes sampleEnv (NewInstanceTypeProvider ''us-west-2'')
     = (Inr sampleCatalog, fetchedProvider)"
  by (simp add: getInstanceTypes_def NewInstanceTypeProvider_def Get_def sampleEnv_def
      SetDefault_def InstanceTypesAndZonesCacheTTL_def sampleType_def otherType_def
      StringValue_def sampleCatalog_def fetchedProvider_def Let_def)

lemma sample_getInstanceTypeZones:
  "getInstanceTypeZones sampleEnv sampleTemplate fetchedProvider = (Inr sampleZones, zonedProvider)"
  by (simp add: getInstanceTypeZones_def fetchedProvider_def zonedProvider_def Get_def
      keys_distinct sampleEnv_def SetDefault_def InstanceTypesAndZonesCacheTTL_def
      StringValue_def NewString_def Insert_def Has_def sampleZones_def Let_def)

lemma sample_List_loop:
  "List_loop sampleEnv zonedProvider None sampleTemplate sampleZones sampleCatalog []
     = Inr sampleResult"
proof -
  have names: "InstanceType sampleType = Some ''m5.large''"
    "InstanceType otherType = Some ''c5.large''"
    by (simp_all add: sampleType_def otherType_def)
  have caps: "Capabilities sampleEnv = (\<lambda>i k r t. ())"
    by (simp add: sampleEnv_def)
  show ?thesis
    by (simp add: sampleCatalog_def sampleZones_def sampleResult_def sample_run names caps
        NewInstanceType_def createOfferings_nil StringValue_def)
qed

lemma sample_List:
  "List sampleEnv None sampleTemplate (NewInstanceTypeProvider ''us-west-2'')
     = (Inr sampleResult, sampleProvider)"
proof -
  have seq: "instanceTypesSeqNum zonedProvider = 1"
    by (simp add: zonedProvider_def)
  have miss: "Get (cache zonedProvider) (Now sampleEnv)
         (resultKey (instanceTypesSeqNum zonedProvider) (UnavailableSeqNum sampleEnv)
            (UID sampleTemplate) (HashZones sampleEnv sampleZones) (HashKubelet sampleEnv None))
       = None"
    unfolding seq sample_key
    by (simp add: Get_def zonedProvider_def sampleKey_def InstanceTypesCacheKey_def
        zonesKey_def InstanceTypeZonesCacheKeyPrefix_def)
  show ?thesis
    using List_miss [OF sample_getInstanceTypes sample_getInstanceTypeZones miss sample_List_loop]
    unfolding seq sample_key
    by (simp add: sampleProvider_def zonedProvider_def SetDefault_def
        InstanceTypesAndZonesCacheTTL_def sampleEnv_def)
qed


subsection \<open>One resolved instance type per catalog entry\<close>

text \<open>
  Claim C6. When both fetches succeed and the cache holds no live entry under the
  composite key, \<^verbatim>\<open>List\<close> returns one resolved instance type per catalog entry, in step with
  the catalog: each carries the name of its entry and the offerings composed for the zones
  the zone map assigns to that name, and an entry whose name the zone map does not hold
  is still present, with no offerings. The catalog entries are assumed to carry a name.
\<close>

theorem List_one_per_instance_type:
  assumes "getInstanceTypes env p = (Inr instanceTypes, p1)"
    and "getInstanceTypeZones env nodeTemplate p1 = (Inr instanceTypeZones, p2)"
    and "Get (cache p2) (Now env)
           (resultKey (instanceTypesSeqNum p2) (UnavailableSeqNum env) (UID nodeTemplate)
              (HashZones env instanceTypeZones) (HashKubelet env kc)) = None"
    and "\<forall>(k, i) \<in> set instanceTypes. InstanceType i \<noteq> None"
  shows "\<exists>result p'. List env kc nodeTemplate p = (Inr result, p')
           \<and> length result = length instanceTypes
           \<and> list_all2
               (\<lambda>(k, i) r. Name r = StringValue (InstanceType i)
                  \<and> createOfferings env i
                       (case instanceTypeZones (StringValue (InstanceType i)) of
                          None \<Rightarrow> [] | Some zones \<Rightarrow> zones) = Inr (Offerings r)
                  \<and> (instanceTypeZones (StringValue (InstanceType i)) = None
                       \<longrightarrow> Offerings r = []))
               instanceTypes result"
proof -
  from List_loop_closed [OF assms(4), of env p2 kc nodeTemplate instanceTypeZones "[]"]
  obtain result where
    loop: "List_loop env p2 kc nodeTemplate instanceTypeZones instanceTypes [] = Inr result"
    and all: "list_all2
               (\<lambda>(k, i) r. \<exists>offerings.
                   createOfferings env i
                     (case instanceTypeZones (StringValue (InstanceType i)) of
                        None \<Rightarrow> [] | Some zones \<Rightarrow> zones) = Inr offerings
                   \<and> r = NewInstanceType env i kc (region p2) nodeTemplate offerings)
               instanceTypes result"
    by auto
  have "list_all2
               (\<lambda>(k, i) r. Name r = StringValue (InstanceType i)
                  \<and> createOfferings env i
                       (case instanceTypeZones (StringValue (InstanceType i)) of
                          None \<Rightarrow> [] | Some zones \<Rightarrow> zones) = Inr (Offerings r)
                  \<and> (instanceTypeZones (StringValue (InstanceType i)) = None
                       \<longrightarrow> Offerings r = []))
               instanceTypes result"
    using all
    by (rule list_all2_mono) (auto simp: NewInstanceType_def createOfferings_nil)
  moreover from this have "length result = length instanceTypes"
    by (simp add: list_all2_lengthD)
  ultimately show ?thesis
    using List_miss [OF assms(1,2,3) loop] by blast
qed

theorem List_one_per_instance_type_witness:
  "getInstanceTypes sampleEnv (NewInstanceTypeProvider ''us-west-2'')
     = (Inr sampleCatalog, fetchedProvider)
   \<and> getInstanceTypeZones sampleEnv sampleTemplate fetchedProvider = (Inr sampleZones, zonedProvider)
   \<and> Get (cache zonedProvider) (Now sampleEnv)
        (resultKey (instanceTypesSeqNum zonedProvider) (UnavailableSeqNum sampleEnv)
           (UID sampleTemplate) (HashZones sampleEnv sampleZones) (HashKubelet sampleEnv None))
      = None
   \<and> sampleZones ''c5.large'' = None
   \<and> (\<exists>result p'.
        List sampleEnv None sampleTemplate (NewInstanceTypeProvider ''us-west-2'') = (Inr result, p')
        \<and> length result = 2
        \<and> Name (result ! 1) = ''c5.large'' \<and> Offerings (result ! 1) = [])"
proof -
  have miss: "Get (cache zonedProvider) (Now sampleEnv)
        (resultKey (instanceTypesSeqNum zonedProvider) (UnavailableSeqNum sampleEnv)
           (UID sampleTemplate) (HashZones sampleEnv sampleZones) (HashKubelet sampleEnv None))
      = None"
    by (simp add: Get_def zonedProvider_def keys_distinct)
  have names: "\<forall>(k, i) \<in> set sampleCatalog. InstanceType i \<noteq> None"
    by (simp add: sampleCatalog_def sampleType_def otherType_def)
  have absent: "sampleZones ''c5.large'' = None"
    by (simp add: sampleZones_def)
  from List_one_per_instance_type
         [OF sample_getInstanceTypes sample_getInstanceTypeZones miss names]
  obtain result p' where
    run: "List sampleEnv None sampleTemplate (NewInstanceTypeProvider ''us-west-2'')
            = (Inr result, p')"
    and len: "length result = length sampleCatalog"
    and all: "list_all2
               (\<lambda>(k, i) r. Name r = StringValue (InstanceType i)
                  \<and> createOfferings sampleEnv i
                       (case sampleZones (StringValue (InstanceType i)) of
                          None \<Rightarrow> [] | Some zones \<Rightarrow> zones) = Inr (Offerings r)
                  \<and> (sampleZones (StringValue (InstanceType i)) = None
                       \<longrightarrow> Offerings r = []))
               sampleCatalog result"
    by blast
  have "(\<lambda>(k, i) r. Name r = StringValue (InstanceType i)
                  \<and> createOfferings sampleEnv i
                       (case sampleZones (StringValue (InstanceType i)) of
                          None \<Rightarrow> [] | Some zones \<Rightarrow> zones) = Inr (Offerings r)
                  \<and> (sampleZones (StringValue (InstanceType i)) = None
                       \<longrightarrow> Offerings r = [])) (sampleCatalog ! 1) (result ! 1)"
    using all by (rule list_all2_nthD) (simp add: sampleCatalog_def)
  then have "Name (result ! 1) = ''c5.large'' \<and> Offerings (result ! 1) = []"
    using absent by (simp add: sampleCatalog_def otherType_def StringValue_def)
  with run len show ?thesis
    using sample_getInstanceTypes sample_getInstanceTypeZones miss absent
    by (auto simp: sampleCatalog_def)
qed

subsection \<open>Failing fast\<close>

text \<open>
  Claim C7. When the catalog fetch fails, or it succeeds and the zone-map fetch fails,
  \<^verbatim>\<open>List\<close> returns that error and no list. No cache entry other than the catalog entry
  differs afterwards, so nothing is stored under any composite key; when it is the catalog
  fetch that fails, the provider is left as it was.
\<close>

theorem List_fail_fast:
  assumes "getInstanceTypes env p = (Inl e, p')
         \<or> (\<exists>instanceTypes p1. getInstanceTypes env p = (Inr instanceTypes, p1)
              \<and> getInstanceTypeZones env nodeTemplate p1 = (Inl e, p'))"
  shows "List env kc nodeTemplate p = (Inl e, p')
       \<and> (\<forall>k. k \<noteq> InstanceTypesCacheKey \<longrightarrow> cache p' k = cache p k)
       \<and> (\<forall>s u uid zh kh. cache p' (resultKey s u uid zh kh) = cache p (resultKey s u uid zh kh))
       \<and> (getInstanceTypes env p = (Inl e, p') \<longrightarrow> p' = p)"
proof -
  have run: "List env kc nodeTemplate p = (Inl e, p')"
    using assms by (auto simp: List_Inl_types List_Inl_zones)
  have frame: "cache p' k = cache p k" if "k \<noteq> InstanceTypesCacheKey" for k
    using assms
  proof
    assume "getInstanceTypes env p = (Inl e, p')"
    then have "p' = p" by (rule getInstanceTypes_Inl)
    then show ?thesis by simp
  next
    assume "\<exists>instanceTypes p1. getInstanceTypes env p = (Inr instanceTypes, p1)
              \<and> getInstanceTypeZones env nodeTemplate p1 = (Inl e, p')"
    then obtain instanceTypes p1 where
      t: "getInstanceTypes env p = (Inr instanceTypes, p1)"
      and z: "getInstanceTypeZones env nodeTemplate p1 = (Inl e, p')"
      by blast
    from z have "p' = p1" by (rule getInstanceTypeZones_Inl)
    with getInstanceTypes_cache [OF t that] show ?thesis by simp
  qed
  have "cache p' (resultKey s u uid zh kh) = cache p (resultKey s u uid zh kh)" for s u uid zh kh
    by (rule frame) (rule resultKey_not_types)
  with run frame show ?thesis
    by (auto dest: getInstanceTypes_Inl)
qed

lemma failing_getInstanceTypes:
  "getInstanceTypes failingEnv (NewInstanceTypeProvider ''us-west-2'')
     = (Inr sampleCatalog, fetchedProvider)"
  by (simp add: getInstanceTypes_def NewInstanceTypeProvider_def Get_def sampleEnv_def
      SetDefault_def InstanceTypesAndZonesCacheTTL_def sampleType_def otherType_def
      StringValue_def sampleCatalog_def fetchedProvider_def Let_def failingEnv_def)

lemma failing_getInstanceTypeZones:
  "getInstanceTypeZones failingEnv sampleTemplate fetchedProvider
     = (Inl (NoSubnetsMatched (SubnetSelector sampleTemplate)), fetchedProvider)"
  by (simp add: getInstanceTypeZones_def fetchedProvider_def Get_def keys_distinct
      sampleEnv_def failingEnv_def Let_def)

theorem List_fail_fast_witness:
  "getInstanceTypes failingEnv (NewInstanceTypeProvider ''us-west-2'')
     = (Inr sampleCatalog, fetchedProvider)
   \<and> getInstanceTypeZones failingEnv sampleTemplate fetchedProvider
     = (Inl (NoSubnetsMatched (SubnetSelector sampleTemplate)), fetchedProvider)
   \<and> List failingEnv None sampleTemplate (NewInstanceTypeProvider ''us-west-2'')
     = (Inl (NoSubnetsMatched (SubnetSelector sampleTemplate)), fetchedProvider)
   \<and> cache fetchedProvider sampleKey = None"
proof -
  have h: "getInstanceTypes failingEnv (NewInstanceTypeProvider ''us-west-2'')
             = (Inl (NoSubnetsMatched (SubnetSelector sampleTemplate)), fetchedProvider)
         \<or> (\<exists>instanceTypes p1.
               getInstanceTypes failingEnv (NewInstanceTypeProvider ''us-west-2'')
                 = (Inr instanceTypes, p1)
              \<and> getInstanceTypeZones failingEnv sampleTemplate p1
                 = (Inl (NoSubnetsMatched (SubnetSelector sampleTemplate)), fetchedProvider))"
    using failing_getInstanceTypes failing_getInstanceTypeZones by blast
  have "cache fetchedProvider sampleKey = None"
    by (simp add: fetchedProvider_def sampleKey_def InstanceTypesCacheKey_def)
  then show ?thesis
    using List_fail_fast [OF h, of None] failing_getInstanceTypes failing_getInstanceTypeZones
    by simp
qed


subsection \<open>Idempotence\<close>

text \<open>
  Claim C8. After a successful call, a second call for the same kubelet configuration and
  node template returns the list of the first call when the tracker's sequence number
  and the hash functions are the same, its catalog step leaves the catalog sequence
  number as it was, its zone-map step yields the zone map of the first call, from the
  cache or fetched again, and the entry under the composite key has not expired. The
  prices and availability marks of the second call play no part: the list is taken from
  the cache and not composed again.
\<close>

theorem List_idempotent:
  assumes "getInstanceTypes env p = (Inr instanceTypes, p1)"
    and "getInstanceTypeZones env nodeTemplate p1 = (Inr instanceTypeZones, p2)"
    and "List env kc nodeTemplate p = (Inr result, p')"
    and "UnavailableSeqNum env' = UnavailableSeqNum env"
    and "HashZones env' = HashZones env"
    and "HashKubelet env' = HashKubelet env"
    and "getInstanceTypes env' p' = (Inr instanceTypes', p1')"
    and "instanceTypesSeqNum p1' = instanceTypesSeqNum p'"
    and "getInstanceTypeZones env' nodeTemplate p1' = (Inr instanceTypeZones, p2')"
    and "Get (cache p') (Now env')
           (resultKey (instanceTypesSeqNum p') (UnavailableSeqNum env) (UID nodeTemplate)
              (HashZones env instanceTypeZones) (HashKubelet env kc)) \<noteq> None"
  shows "List env' kc nodeTemplate p' = (Inr result, p2')"
proof -
  let ?key = "resultKey (instanceTypesSeqNum p') (UnavailableSeqNum env) (UID nodeTemplate)
                (HashZones env instanceTypeZones) (HashKubelet env kc)"
  from List_Inr [OF assms(3)] assms(1,2) obtain e where
    stored: "cache p' ?key = Some (CResult result, e)"
    by auto
  have same: "p1' = p'"
    using getInstanceTypes_Inr [OF assms(7)] assms(8) by auto
  have seq: "instanceTypesSeqNum p2' = instanceTypesSeqNum p'"
    using assms(9) by (simp add: getInstanceTypeZones_seq same)
  have "cache p2' ?key = cache p' ?key"
    using assms(9) unfolding same by (rule getInstanceTypeZones_cache)
  then have "Get (cache p2') (Now env') ?key = Get (cache p') (Now env') ?key"
    by (simp add: Get_def)
  also have "\<dots> = Some (CResult result)"
    using stored assms(10) by (rule Get_stored)
  finally have hit: "Get (cache p2') (Now env')
         (resultKey (instanceTypesSeqNum p2') (UnavailableSeqNum env') (UID nodeTemplate)
            (HashZones env' instanceTypeZones) (HashKubelet env' kc)) = Some (CResult result)"
    by (simp add: seq assms(4,5,6))
  from List_hit [OF assms(7,9) hit] show ?thesis .
qed

lemma later_getInstanceTypes:
  "getInstanceTypes laterEnv sampleProvider = (Inr sampleCatalog, sampleProvider)"
  by (rule getInstanceTypes_hit)
     (simp add: Get_def sampleProvider_def laterEnv_def keys_distinct sampleKey_def
        InstanceTypesCacheKey_def zonesKey_def InstanceTypeZonesCacheKeyPrefix_def)

lemma later_getInstanceTypeZones:
  "getInstanceTypeZones laterEnv sampleTemplate sampleProvider = (Inr sampleZones, sampleProvider)"
proof -
  have "HashSelector laterEnv (SubnetSelector sampleTemplate) = Inr 0"
    by (simp add: laterEnv_def sampleEnv_def)
  moreover have "Get (cache sampleProvider) (Now laterEnv) (zonesKey 0) = Some (CZones sampleZones)"
    by (simp add: Get_def sampleProvider_def laterEnv_def keys_distinct sampleKey_def
        zonesKey_def InstanceTypeZonesCacheKeyPrefix_def)
  ultimately show ?thesis by (rule getInstanceTypeZones_hit)
qed

theorem List_idempotent_witness:
  "List sampleEnv None sampleTemplate (NewInstanceTypeProvider ''us-west-2'')
     = (Inr sampleResult, sampleProvider)
   \<and> UnavailableSeqNum laterEnv = UnavailableSeqNum sampleEnv
   \<and> getInstanceTypes laterEnv sampleProvider = (Inr sampleCatalog, sampleProvider)
   \<and> getInstanceTypeZones laterEnv sampleTemplate sampleProvider = (Inr sampleZones, sampleProvider)
   \<and> Get (cache sampleProvider) (Now laterEnv) sampleKey = Some (CResult sampleResult)
   \<and> List laterEnv None sampleTemplate sampleProvider = (Inr sampleResult, sampleProvider)"
proof -
  have u: "UnavailableSeqNum laterEnv = UnavailableSeqNum sampleEnv"
    and z: "HashZones laterEnv = HashZones sampleEnv"
    and k: "HashKubelet laterEnv = HashKubelet sampleEnv"
    by (simp_all add: laterEnv_def)
  have seq: "instanceTypesSeqNum sampleProvider = 1"
    by (simp add: sampleProvider_def)
  have g: "Get (cache sampleProvider) (Now laterEnv) sampleKey = Some (CResult sampleResult)"
    by (simp add: Get_def sampleProvider_def laterEnv_def)
  have r: "Get (cache sampleProvider) (Now laterEnv)
           (resultKey (instanceTypesSeqNum sampleProvider) (UnavailableSeqNum sampleEnv)
              (UID sampleTemplate) (HashZones sampleEnv sampleZones) (HashKubelet sampleEnv None))
         \<noteq> None"
    unfolding seq sample_key using g by simp
  show ?thesis
    using List_idempotent [OF sample_getInstanceTypes sample_getInstanceTypeZones sample_List
        u z k later_getInstanceTypes refl later_getInstanceTypeZones r]
      sample_List u later_getInstanceTypes later_getInstanceTypeZones g
    by simp
qed

subsection \<open>A selector that matches no subnet\<close>

text \<open>
  Claim C5, amended. When the subnet selector matches no subnet and the cache holds no
  live zone map for the selector, \<^verbatim>\<open>List\<close> returns an error and no list; the error is the
  one for no matching subnets whenever the catalog fetch and the hashing of the selector
  succeed.
\<close>

theorem List_no_subnets:
  assumes "SubnetList env nodeTemplate = Inr []"
    and "\<forall>h. HashSelector env (SubnetSelector nodeTemplate) = Inr h
           \<longrightarrow> Get (cache p) (Now env) (zonesKey h) = None"
  shows "\<exists>e p'. List env kc nodeTemplate p = (Inl e, p')
           \<and> ((\<exists>instanceTypes p1. getInstanceTypes env p = (Inr instanceTypes, p1))
                \<and> (\<exists>h. HashSelector env (SubnetSelector nodeTemplate) = Inr h)
               \<longrightarrow> e = NoSubnetsMatched (SubnetSelector nodeTemplate))"
proof (cases "getInstanceTypes env p")
  case (Pair r p1)
  show ?thesis
  proof (cases r)
    case (Inl e)
    with Pair show ?thesis
      by (auto simp: List_Inl_types)
  next
    case (Inr instanceTypes)
    with Pair have t: "getInstanceTypes env p = (Inr instanceTypes, p1)"
      by simp
    have miss: "Get (cache p1) (Now env) (zonesKey h) = None"
      if "HashSelector env (SubnetSelector nodeTemplate) = Inr h" for h
    proof -
      have "cache p1 (zonesKey h) = cache p (zonesKey h)"
        using t zonesKey_not_types by (rule getInstanceTypes_cache)
      then have "Get (cache p1) (Now env) (zonesKey h) = Get (cache p) (Now env) (zonesKey h)"
        by (simp add: Get_def)
      with that assms(2) show ?thesis by simp
    qed
    have z: "getInstanceTypeZones env nodeTemplate p1 =
           (case HashSelector env (SubnetSelector nodeTemplate) of
              Inl e \<Rightarrow> (Inl (Errorf ''failed to hash the subnet selector: '' e), p1)
            | Inr h \<Rightarrow> (Inl (NoSubnetsMatched (SubnetSelector nodeTemplate)), p1))"
      using miss assms(1)
      by (auto simp: getInstanceTypeZones_def Let_def split: sum.splits)
    show ?thesis
    proof (cases "HashSelector env (SubnetSelector nodeTemplate)")
      case (Inl e)
      with z t show ?thesis
        by (auto simp: List_Inl_zones)
    next
      case (Inr h)
      with z have "getInstanceTypeZones env nodeTemplate p1 =
         (Inl (NoSubnetsMatched (SubnetSelector nodeTemplate)), p1)"
        by simp
      from List_Inl_zones [OF t this] show ?thesis
        by blast
    qed
  qed
qed

theorem List_no_subnets_witness:
  "SubnetList failingEnv sampleTemplate = Inr []
   \<and> HashSelector failingEnv (SubnetSelector sampleTemplate) = Inr 0
   \<and> Get (cache (NewInstanceTypeProvider ''us-west-2'' :: unit InstanceTypeProvider))
         (Now failingEnv) (zonesKey 0) = None
   \<and> List failingEnv None sampleTemplate (NewInstanceTypeProvider ''us-west-2'')
       = (Inl (NoSubnetsMatched (SubnetSelector sampleTemplate)), fetchedProvider)"
proof -
  have s: "SubnetList failingEnv sampleTemplate = Inr []"
    and h: "HashSelector failingEnv (SubnetSelector sampleTemplate) = Inr 0"
    by (simp_all add: failingEnv_def sampleEnv_def)
  have g: "Get (cache (NewInstanceTypeProvider ''us-west-2'' :: unit InstanceTypeProvider))
             (Now failingEnv) (zonesKey 0) = None"
    by (simp add: Get_def NewInstanceTypeProvider_def)
  have m: "\<forall>h. HashSelector failingEnv (SubnetSelector sampleTemplate) = Inr h
           \<longrightarrow> Get (cache (NewInstanceTypeProvider ''us-west-2'' :: unit InstanceTypeProvider))
                 (Now failingEnv) (zonesKey h) = None"
    by (simp add: Get_def NewInstanceTypeProvider_def)
  from List_no_subnets [OF s m, of None] failing_getInstanceTypes h
  have "\<exists>p'. List failingEnv None sampleTemplate (NewInstanceTypeProvider ''us-west-2'')
           = (Inl (NoSubnetsMatched (SubnetSelector sampleTemplate)), p')"
    by auto
  then have "List failingEnv None sampleTemplate (NewInstanceTypeProvider ''us-west-2'')
       = (Inl (NoSubnetsMatched (SubnetSelector sampleTemplate)), fetchedProvider)"
    using List_Inl_zones [OF failing_getInstanceTypes failing_getInstanceTypeZones] by simp
  with s h g show ?thesis by simp
qed

text \<open>
  Claim C5 as stated fails while a zone map for the selector is still cached: the second
  call below finds no subnet upstream and yet succeeds, because the cached zone map
  spares it the subnet lookup.
\<close>

theorem List_stale_zones_counterexample:
  "SubnetList staleEnv sampleTemplate = Inr []
   \<and> List staleEnv None sampleTemplate
       (snd (List sampleEnv None sampleTemplate (NewInstanceTypeProvider ''us-west-2'')))
     = (Inr sampleResult, sampleProvider)"
proof -
  have t: "getInstanceTypes staleEnv sampleProvider = (Inr sampleCatalog, sampleProvider)"
    by (rule getInstanceTypes_hit)
       (simp add: Get_def sampleProvider_def staleEnv_def keys_distinct sampleKey_def
        InstanceTypesCacheKey_def zonesKey_def InstanceTypeZonesCacheKeyPrefix_def)
  have "HashSelector staleEnv (SubnetSelector sampleTemplate) = Inr 0"
    by (simp add: staleEnv_def sampleEnv_def)
  moreover have "Get (cache sampleProvider) (Now staleEnv) (zonesKey 0) = Some (CZones sampleZones)"
    by (simp add: Get_def sampleProvider_def staleEnv_def keys_distinct sampleKey_def
        zonesKey_def InstanceTypeZonesCacheKeyPrefix_def)
  ultimately have z: "getInstanceTypeZones staleEnv sampleTemplate sampleProvider
      = (Inr sampleZones, sampleProvider)"
    by (rule getInstanceTypeZones_hit)
  have seq: "instanceTypesSeqNum sampleProvider = 1"
    by (simp add: sampleProvider_def)
  have same: "UnavailableSeqNum staleEnv = UnavailableSeqNum sampleEnv"
    "HashZones staleEnv = HashZones sampleEnv" "HashKubelet staleEnv = HashKubelet sampleEnv"
    by (simp_all add: staleEnv_def)
  have r: "Get (cache sampleProvider) (Now staleEnv)
           (resultKey (instanceTypesSeqNum sampleProvider) (UnavailableSeqNum staleEnv)
              (UID sampleTemplate) (HashZones staleEnv sampleZones) (HashKubelet staleEnv None))
         = Some (CResult sampleResult)"
    unfolding seq same sample_key
    by (simp add: Get_def sampleProvider_def staleEnv_def)
  have "List staleEnv None sampleTemplate sampleProvider = (Inr sampleResult, sampleProvider)"
    using t z r by (rule List_hit)
  moreover have "SubnetList staleEnv sampleTemplate = Inr []"
    by (simp add: staleEnv_def)
  ultimately show ?thesis
    by (simp add: sample_List)
qed

section \<open>Zone maps hold no empty set\<close>

lemma Insert_nonempty: "Insert s item \<noteq> []"
  by (auto simp: Insert_def)

lemma zonesPage_nonempty:
  "zonesNonEmpty m \<Longrightarrow> zonesNonEmpty (zonesPage zones m page)"
proof (induction page arbitrary: m)
  case Nil
  then show ?case by simp
next
  case (Cons offering page)
  have "zonesNonEmpty (m(name \<mapsto> Insert s item))" for name s item
    using Cons.prems by (simp add: zonesNonEmpty_def Insert_nonempty)
  then have "zonesNonEmpty (zonesPage zones (m(name \<mapsto> Insert s item)) page)" for name s item
    by (rule Cons.IH)
  with Cons.IH [OF Cons.prems] show ?case
    by (simp add: Let_def)
qed

lemma zonesPages_nonempty:
  "zonesNonEmpty m \<Longrightarrow> zonesNonEmpty (foldl (zonesPage zones) m pages)"
  by (induction pages arbitrary: m) (simp_all add: zonesPage_nonempty)

lemma cachedZonesNonEmpty_Get:
  "cachedZonesNonEmpty c \<Longrightarrow> Get c now k = Some (CZones m) \<Longrightarrow> zonesNonEmpty m"
  unfolding cachedZonesNonEmpty_def using Get_Some_stored by blast

lemma cachedZonesNonEmpty_SetDefault:
  "cachedZonesNonEmpty c \<Longrightarrow> zonesNonEmpty m
   \<Longrightarrow> cachedZonesNonEmpty (SetDefault c now k (CZones m))"
  "cachedZonesNonEmpty c \<Longrightarrow> cachedZonesNonEmpty (SetDefault c now k (CTypes instanceTypes))"
  "cachedZonesNonEmpty c \<Longrightarrow> cachedZonesNonEmpty (SetDefault c now k (CResult result))"
  by (auto simp: cachedZonesNonEmpty_def SetDefault_def)

lemma getInstanceTypes_inv:
  assumes "cachedZonesNonEmpty (cache p)"
  shows "cachedZonesNonEmpty (cache (snd (getInstanceTypes env p)))"
proof (cases "getInstanceTypes env p")
  case (Pair r p')
  show ?thesis
  proof (cases r)
    case (Inl e)
    with Pair assms show ?thesis
      by (auto dest: getInstanceTypes_Inl)
  next
    case (Inr instanceTypes)
    with Pair getInstanceTypes_Inr [of env p instanceTypes p'] assms show ?thesis
      by (auto simp: cachedZonesNonEmpty_SetDefault)
  qed
qed

lemma getInstanceTypeZones_inv:
  assumes "cachedZonesNonEmpty (cache p)"
    and "getInstanceTypeZones env nodeTemplate p = (r, p')"
  shows "cachedZonesNonEmpty (cache p')
       \<and> (\<forall>instanceTypeZones. r = Inr instanceTypeZones \<longrightarrow> zonesNonEmpty instanceTypeZones)"
proof (cases r)
  case (Inl e)
  with assms show ?thesis
    by (auto dest: getInstanceTypeZones_Inl)
next
  case (Inr instanceTypeZones)
  have empty: "zonesNonEmpty Map.empty"
    by (simp add: zonesNonEmpty_def)
  from Inr assms(2) have "getInstanceTypeZones env nodeTemplate p = (Inr instanceTypeZones, p')"
    by simp
  from getInstanceTypeZones_Inr [OF this] show ?thesis
  proof (elim exE conjE disjE, goal_cases)
    case (1 h)
    with assms(1) Inr show ?case
      by (auto dest: cachedZonesNonEmpty_Get)
  next
    case (2 h subnets pages)
    from 2 have ne: "zonesNonEmpty instanceTypeZones"
      using zonesPages_nonempty [OF empty] by simp
    then have "cachedZonesNonEmpty (SetDefault (cache p) (Now env) (zonesKey h)
                              (CZones instanceTypeZones))"
      using assms(1) by (simp add: cachedZonesNonEmpty_SetDefault)
    with 2 ne Inr show ?case
      by simp
  qed
qed

lemma List_inv:
  assumes "cachedZonesNonEmpty (cache p)"
  shows "cachedZonesNonEmpty (cache (snd (List env kc nodeTemplate p)))"
proof -
  obtain r1 p1 where t: "getInstanceTypes env p = (r1, p1)"
    by (cases "getInstanceTypes env p")
  obtain r2 p2 where z: "getInstanceTypeZones env nodeTemplate p1 = (r2, p2)"
    by (cases "getInstanceTypeZones env nodeTemplate p1")
  have i1: "cachedZonesNonEmpty (cache p1)"
    using getInstanceTypes_inv [OF assms, of env] t by simp
  have i2: "cachedZonesNonEmpty (cache p2)"
    using getInstanceTypeZones_inv [OF i1 z] by simp
  show ?thesis
    using t z i1 i2
    by (auto simp: List_def Let_def cachedZonesNonEmpty_SetDefault
        split: sum.splits option.splits CacheValue.splits)
qed

lemma reachable_inv: "reachable p \<Longrightarrow> cachedZonesNonEmpty (cache p)"
proof (induction rule: reachable.induct)
  case (reachable_new sessRegion)
  show ?case by (simp add: NewInstanceTypeProvider_def cachedZonesNonEmpty_def)
next
  case (reachable_types p env)
  then show ?case by (simp add: getInstanceTypes_inv)
next
  case (reachable_zones p env nodeTemplate)
  then show ?case
    using getInstanceTypeZones_inv [of p env nodeTemplate] by (metis prod.collapse)
next
  case (reachable_List p env kc nodeTemplate)
  then show ?case by (simp add: List_inv)
qed

text \<open>
  Claim C9. In every provider state that calls of the methods can produce, a zone map
  returned by \<^verbatim>\<open>getInstanceTypeZones\<close>, freshly built or taken from the cache, binds every
  name it holds to a set with at least one zone.
\<close>

theorem getInstanceTypeZones_nonempty:
  assumes "reachable p"
    and "getInstanceTypeZones env nodeTemplate p = (Inr instanceTypeZones, p')"
    and "instanceTypeZones name = Some zones"
  shows "zones \<noteq> []"
proof -
  have "cachedZonesNonEmpty (cache p)"
    using assms(1) by (rule reachable_inv)
  from getInstanceTypeZones_inv [OF this assms(2)] have "zonesNonEmpty instanceTypeZones"
    by simp
  with assms(3) show ?thesis
    by (simp add: zonesNonEmpty_def)
qed

theorem getInstanceTypeZones_nonempty_witness:
  "reachable fetchedProvider
   \<and> getInstanceTypeZones sampleEnv sampleTemplate fetchedProvider = (Inr sampleZones, zonedProvider)
   \<and> sampleZones ''m5.large'' = Some [''A'', ''B''] \<and> [''A'', ''B''] \<noteq> ([] :: string list)"
proof -
  have "reachable (snd (getInstanceTypes sampleEnv (NewInstanceTypeProvider ''us-west-2'')))"
    by (intro reachable.intros)
  then have r: "reachable fetchedProvider"
    by (simp add: sample_getInstanceTypes)
  have z: "sampleZones ''m5.large'' = Some [''A'', ''B'']"
    by (simp add: sampleZones_def)
  show ?thesis
    using getInstanceTypeZones_nonempty [OF r sample_getInstanceTypeZones z]
      r sample_getInstanceTypeZones z
    by simp
qed

section \<open>The catalog sequence number\<close>

text \<open>
  Claim C2. The field comment calls \<^verbatim>\<open>instanceTypesSeqNum\<close> a change counter, but
  \<^verbatim>\<open>getInstanceTypes\<close> adds one on every successful fetch. Here the cached catalog has
  expired and EC2 delivers the very same catalog: the sequence number still goes from 1
  to 2.
\<close>

theorem getInstanceTypes_refresh_same_content:
  "cache sampleProvider InstanceTypesCacheKey = Some (CTypes sampleCatalog, 300000001000)
   \<and> Get (cache sampleProvider) (Now expiredEnv) InstanceTypesCacheKey = None
   \<and> fst (getInstanceTypes expiredEnv sampleProvider) = Inr sampleCatalog
   \<and> instanceTypesSeqNum sampleProvider = 1
   \<and> instanceTypesSeqNum (snd (getInstanceTypes expiredEnv sampleProvider)) = 2"
proof -
  have c: "cache sampleProvider InstanceTypesCacheKey = Some (CTypes sampleCatalog, 300000001000)"
    by (simp add: sampleProvider_def keys_distinct sampleKey_def InstanceTypesCacheKey_def
        zonesKey_def InstanceTypeZonesCacheKeyPrefix_def)
  have g: "Get (cache sampleProvider) (Now expiredEnv) InstanceTypesCacheKey = None"
    by (simp add: Get_def c expiredEnv_def sampleEnv_def)
  have d: "DescribeInstanceTypesPages expiredEnv instanceTypeFilters
             = ([[sampleType], [otherType]], None)"
    by (simp add: expiredEnv_def sampleEnv_def)
  have "getInstanceTypes expiredEnv sampleProvider =
          (Inr sampleCatalog,
           sampleProvider\<lparr>instanceTypesSeqNum := instanceTypesSeqNum sampleProvider + 1,
              cache := SetDefault (cache sampleProvider) (Now expiredEnv) InstanceTypesCacheKey
                         (CTypes sampleCatalog)\<rparr>)"
    by (simp add: getInstanceTypes_def g d Let_def sampleCatalog_def sampleType_def
        otherType_def StringValue_def)
  then show ?thesis
    using c g by (simp add: sampleProvider_def)
qed

end
